theory Spec2Isabelle
  imports Complex_Main "HOL-Library.AList"
begin

text \<open>
  A model of the inventory service: the collection store \<open>Database\<close> over a
  key-value backend, the items handler (\<open>handlePost\<close>, \<open>handlePut\<close>,
  \<open>calculateStats\<close>) and the migration handler (\<open>migrateData\<close>). Values are
  JavaScript values, the backend is a map from keys to arrays of records whose
  calls may throw, and the built-ins of the runtime are parameters. The
  definitions come first; the properties follow, grouped by component.
\<close>

section \<open>JavaScript values\<close>

text \<open>
  A JavaScript number is NaN, an infinity or a finite value. Finite values are
  rationals here and arithmetic on them is exact: the rounding of IEEE doubles
  and the sign of zero are not part of this model.
\<close>

datatype jsnum = NaN | PosInf | NegInf | Fin rat

datatype jsval =
    JUndefined
  | JNull
  | JBool bool
  | JNum jsnum
  | JStr string
  | JArr "jsval list"
  | JObj "(string \<times> jsval) list"

text \<open>A record of a collection: its own properties, in insertion order.\<close>

type_synonym obj = "(string \<times> jsval) list"

text \<open>Reading a property of an object: \<open>undefined\<close> when it is absent.\<close>

definition getp :: "obj \<Rightarrow> string \<Rightarrow> jsval" where
  "getp r k = (case map_of r k of None \<Rightarrow> JUndefined | Some v \<Rightarrow> v)"

text \<open>The values that count as false in a condition, in \<open>!x\<close> and in \<open>x || y\<close>.\<close>

fun falsy :: "jsval \<Rightarrow> bool" where
  "falsy JUndefined = True"
| "falsy JNull = True"
| "falsy (JBool b) = (\<not> b)"
| "falsy (JNum NaN) = True"
| "falsy (JNum (Fin q)) = (q = 0)"
| "falsy (JNum _) = False"
| "falsy (JStr s) = (s = [])"
| "falsy (JArr _) = False"
| "falsy (JObj _) = False"

text \<open>\<open>a || b\<close>\<close>

definition js_or :: "jsval \<Rightarrow> jsval \<Rightarrow> jsval" where
  "js_or a b = (if falsy a then b else a)"

text \<open>
  \<open>a === b\<close>. NaN is not equal to itself. Arrays and objects are compared by
  reference; a value read from the store is a fresh copy, so it is never the
  same reference as a value the caller holds, and the comparison is false.
\<close>

fun strict_eq :: "jsval \<Rightarrow> jsval \<Rightarrow> bool" where
  "strict_eq JUndefined JUndefined = True"
| "strict_eq JNull JNull = True"
| "strict_eq (JBool a) (JBool b) = (a = b)"
| "strict_eq (JNum NaN) (JNum _) = False"
| "strict_eq (JNum _) (JNum NaN) = False"
| "strict_eq (JNum a) (JNum b) = (a = b)"
| "strict_eq (JStr a) (JStr b) = (a = b)"
| "strict_eq _ _ = False"

text \<open>\<open>{...a, ...b}\<close>: the properties of \<open>a\<close>, overwritten and extended by those of \<open>b\<close>.\<close>

definition spread :: "obj \<Rightarrow> obj \<Rightarrow> obj" where
  "spread a b = foldl (\<lambda>acc (k, v). AList.update k v acc) a b"

section \<open>The key-value backend\<close>

text \<open>
  The remote store holds one array of records per key. A call to it may throw:
  \<open>faults\<close> lists, for the calls still to come, whether each one throws (a call
  beyond the end of the list succeeds). A \<open>kv.set\<close> that throws leaves the stored
  value as it was. \<open>calls\<close> records every call made, in order, and \<open>tick\<close>
  counts the readings of the clock and of the random source taken so far.
\<close>

datatype kvcall = KGet string | KSet string "obj list"

record world =
  kv :: "string \<Rightarrow> obj list option"
  faults :: "bool list"
  calls :: "kvcall list"
  tick :: nat

definition EMERGENCY_ITEMS :: string where "EMERGENCY_ITEMS = ''emergency_items''"
definition OUTBOUND_RECORDS :: string where "OUTBOUND_RECORDS = ''outbound_records''"
definition RETURN_RECORDS :: string where "RETURN_RECORDS = ''return_records''"
definition BORROW_RECORDS :: string where "BORROW_RECORDS = ''borrow_records''"
definition OPERATION_LOGS :: string where "OPERATION_LOGS = ''operation_logs''"

text \<open>Whether the next backend call throws, and the world after it was made.\<close>

definition backend_call :: "kvcall \<Rightarrow> world \<Rightarrow> bool \<times> world" where
  "backend_call c w =
     (case faults w of
        [] \<Rightarrow> (False, w\<lparr>calls := calls w @ [c]\<rparr>)
      | f # fs \<Rightarrow> (f, w\<lparr>faults := fs, calls := calls w @ [c]\<rparr>))"

section \<open>Database\<close>

text \<open>\<open>Database.get\<close>: the stored array, or \<open>[]\<close> when the key is absent or the call throws.\<close>

definition Database_get :: "world \<Rightarrow> string \<Rightarrow> obj list \<times> world" where
  "Database_get w key =
     (let (thrown, w1) = backend_call (KGet key) w in
      if thrown then ([], w1)
      else (case kv w1 key of None \<Rightarrow> [] | Some d \<Rightarrow> d, w1))"

text \<open>\<open>Database.set\<close>: true when the write went through, false when the call threw.\<close>

definition Database_set :: "world \<Rightarrow> string \<Rightarrow> obj list \<Rightarrow> bool \<times> world" where
  "Database_set w key d =
     (let (thrown, w1) = backend_call (KSet key d) w in
      if thrown then (False, w1)
      else (True, w1\<lparr>kv := (kv w1)(key \<mapsto> d)\<rparr>))"

text \<open>\<open>Database.add\<close>: \<open>data.push(item)\<close> on what \<open>get\<close> returned, then \<open>set\<close>.\<close>

definition Database_add :: "world \<Rightarrow> string \<Rightarrow> obj \<Rightarrow> bool \<times> world" where
  "Database_add w key item =
     (let (d, w1) = Database_get w key in Database_set w1 key (d @ [item]))"

text \<open>\<open>Array.prototype.findIndex\<close>; \<open>None\<close> stands for the result \<open>-1\<close>.\<close>

fun findIndex :: "('a \<Rightarrow> bool) \<Rightarrow> 'a list \<Rightarrow> nat option" where
  "findIndex P [] = None"
| "findIndex P (x # xs) =
     (if P x then Some 0 else map_option Suc (findIndex P xs))"

definition has_id :: "jsval \<Rightarrow> obj \<Rightarrow> bool" where
  "has_id i item = strict_eq (getp item ''id'') i"

text \<open>\<open>Database.update\<close>: merge \<open>updates\<close> into the first record with this id.\<close>

definition Database_update :: "world \<Rightarrow> string \<Rightarrow> jsval \<Rightarrow> obj \<Rightarrow> bool \<times> world" where
  "Database_update w key i updates =
     (let (d, w1) = Database_get w key in
      case findIndex (has_id i) d of
        Some n \<Rightarrow> Database_set w1 key (d[n := spread (d ! n) updates])
      | None \<Rightarrow> (False, w1))"

text \<open>\<open>Database.delete\<close>: keep the records whose id differs, write them back.\<close>

definition Database_delete :: "world \<Rightarrow> string \<Rightarrow> jsval \<Rightarrow> bool \<times> world" where
  "Database_delete w key i =
     (let (d, w1) = Database_get w key in
      Database_set w1 key (filter (\<lambda>item. \<not> has_id i item) d))"

text \<open>The calls of a trace that are writes.\<close>

fun is_write :: "kvcall \<Rightarrow> bool" where
  "is_write (KSet _ _) = True"
| "is_write (KGet _) = False"

text \<open>Whether the \<open>n\<close>-th backend call from now on throws.\<close>

definition nth_fault :: "world \<Rightarrow> nat \<Rightarrow> bool" where
  "nth_fault w n = (n < length (faults w) \<and> faults w ! n)"

section \<open>The JavaScript runtime\<close>

text \<open>
  The built-ins the handlers call are not code of this repository; they are
  parameters of the model. \<open>to_primitive\<close> is the conversion of an array or
  object to a primitive (\<open>None\<close> when it throws a TypeError), \<open>num_to_str\<close> the
  string form of a number, \<open>str_to_num\<close> the numeric value of a string.
  The clock and the random source are read by position: the \<open>n\<close>-th reading
  taken since the start is \<open>now_ms n\<close> for \<open>Date.now().toString()\<close>,
  \<open>now_iso n\<close> for \<open>new Date().toISOString()\<close>, and \<open>random_str n\<close> for the
  string form of \<open>Math.random()\<close>. \<open>error_message\<close> is the message of the
  exception a failing conversion or property read throws.
\<close>

record runtime =
  parseInt :: "jsval \<Rightarrow> jsnum"
  parseFloat :: "jsval \<Rightarrow> jsnum"
  to_primitive :: "jsval \<Rightarrow> jsval option"
  num_to_str :: "jsnum \<Rightarrow> string"
  str_to_num :: "string \<Rightarrow> jsnum"
  now_ms :: "nat \<Rightarrow> string"
  now_iso :: "nat \<Rightarrow> string"
  random_str :: "nat \<Rightarrow> string"
  error_message :: string

text \<open>The sign of a number that is not NaN.\<close>

fun num_sgn :: "jsnum \<Rightarrow> rat" where
  "num_sgn (Fin a) = sgn a"
| "num_sgn PosInf = 1"
| "num_sgn NegInf = - 1"
| "num_sgn NaN = 0"

text \<open>Multiplication of numbers: NaN is absorbing and zero times infinity is NaN.\<close>

fun num_mul :: "jsnum \<Rightarrow> jsnum \<Rightarrow> jsnum" where
  "num_mul NaN _ = NaN"
| "num_mul _ NaN = NaN"
| "num_mul (Fin a) (Fin b) = Fin (a * b)"
| "num_mul x y =
     (let s = num_sgn x * num_sgn y in
      if s = 0 then NaN else if 0 < s then PosInf else NegInf)"

text \<open>Addition of numbers: opposite infinities add up to NaN.\<close>

fun num_add :: "jsnum \<Rightarrow> jsnum \<Rightarrow> jsnum" where
  "num_add NaN _ = NaN"
| "num_add _ NaN = NaN"
| "num_add (Fin a) (Fin b) = Fin (a + b)"
| "num_add (Fin a) y = y"
| "num_add x (Fin b) = x"
| "num_add x y = (if x = y then x else NaN)"

text \<open>\<open>a < b\<close> on numbers: false as soon as one side is NaN.\<close>

fun num_less :: "jsnum \<Rightarrow> jsnum \<Rightarrow> bool" where
  "num_less NaN _ = False"
| "num_less _ NaN = False"
| "num_less (Fin a) (Fin b) = (a < b)"
| "num_less NegInf y = (y \<noteq> NegInf)"
| "num_less x PosInf = (x \<noteq> PosInf)"
| "num_less x y = False"

text \<open>ToPrimitive: primitives are themselves, arrays and objects go to the runtime.\<close>

fun ToPrimitive :: "runtime \<Rightarrow> jsval \<Rightarrow> jsval option" where
  "ToPrimitive rt (JArr xs) = to_primitive rt (JArr xs)"
| "ToPrimitive rt (JObj r) = to_primitive rt (JObj r)"
| "ToPrimitive rt v = Some v"

text \<open>ToNumber; \<open>None\<close> when the conversion of an object throws.\<close>

fun prim_to_number :: "runtime \<Rightarrow> jsval \<Rightarrow> jsnum" where
  "prim_to_number rt JUndefined = NaN"
| "prim_to_number rt JNull = Fin 0"
| "prim_to_number rt (JBool b) = Fin (if b then 1 else 0)"
| "prim_to_number rt (JNum n) = n"
| "prim_to_number rt (JStr s) = str_to_num rt s"
| "prim_to_number rt _ = NaN"

definition ToNumber :: "runtime \<Rightarrow> jsval \<Rightarrow> jsnum option" where
  "ToNumber rt v = map_option (prim_to_number rt) (ToPrimitive rt v)"

text \<open>ToString; \<open>None\<close> when the conversion of an object throws.\<close>

fun prim_to_string :: "runtime \<Rightarrow> jsval \<Rightarrow> string" where
  "prim_to_string rt JUndefined = ''undefined''"
| "prim_to_string rt JNull = ''null''"
| "prim_to_string rt (JBool b) = (if b then ''true'' else ''false'')"
| "prim_to_string rt (JNum n) = num_to_str rt n"
| "prim_to_string rt (JStr s) = s"
| "prim_to_string rt _ = []"

definition ToString :: "runtime \<Rightarrow> jsval \<Rightarrow> string option" where
  "ToString rt v = map_option (prim_to_string rt) (ToPrimitive rt v)"

fun is_str :: "jsval \<Rightarrow> bool" where
  "is_str (JStr _) = True"
| "is_str _ = False"

text \<open>\<open>a + b\<close>: concatenation when either primitive is a string, addition otherwise.\<close>

definition js_plus :: "runtime \<Rightarrow> jsval \<Rightarrow> jsval \<Rightarrow> jsval option" where
  "js_plus rt a b =
     (case ToPrimitive rt a of None \<Rightarrow> None | Some pa \<Rightarrow>
      case ToPrimitive rt b of None \<Rightarrow> None | Some pb \<Rightarrow>
        Some (if is_str pa \<or> is_str pb
              then JStr (prim_to_string rt pa @ prim_to_string rt pb)
              else JNum (num_add (prim_to_number rt pa) (prim_to_number rt pb))))"

text \<open>\<open>a * b\<close>\<close>

definition js_times :: "runtime \<Rightarrow> jsval \<Rightarrow> jsval \<Rightarrow> jsval option" where
  "js_times rt a b =
     (case ToNumber rt a of None \<Rightarrow> None | Some x \<Rightarrow>
      case ToNumber rt b of None \<Rightarrow> None | Some y \<Rightarrow> Some (JNum (num_mul x y)))"

text \<open>\<open>a < 5\<close>: the right side is a number, so the comparison is numeric.\<close>

definition js_less_num :: "runtime \<Rightarrow> jsval \<Rightarrow> jsnum \<Rightarrow> bool option" where
  "js_less_num rt a n = map_option (\<lambda>x. num_less x n) (ToNumber rt a)"

section \<open>calculateStats\<close>

text \<open>
  An entry \<open>{count, value}\<close> of \<open>stats.categories\<close>; the field \<open>value\<close> is
  \<open>cvalue\<close> here. \<open>totalValue\<close> and \<open>value\<close> are JavaScript values because
  \<open>+=\<close> yields a string as soon as one operand is a string.
\<close>

record category_stats =
  count :: jsnum
  cvalue :: jsval

record stats =
  totalItems :: nat
  totalValue :: jsval
  categories :: "(string \<times> category_stats) list"
  lowStock :: "obj list"

text \<open>
  The names every plain object inherits from \<open>Object.prototype\<close>. Reading
  \<open>stats.categories[k]\<close> for one of them finds the inherited member, which is
  truthy, so no entry is created and the two updates land on that member,
  outside \<open>stats\<close>.
\<close>

definition Object_prototype_keys :: "string list" where
  "Object_prototype_keys =
     [''constructor'', ''__proto__'', ''hasOwnProperty'', ''isPrototypeOf'',
      ''propertyIsEnumerable'', ''toLocaleString'', ''toString'', ''valueOf'',
      ''__defineGetter__'', ''__defineSetter__'', ''__lookupGetter__'',
      ''__lookupSetter__'']"

definition low_entry :: "obj \<Rightarrow> obj" where
  "low_entry item =
     [(''id'', getp item ''id''), (''name'', getp item ''name''),
      (''quantity'', getp item ''quantity''), (''unit'', getp item ''unit'')]"

text \<open>The body of the \<open>forEach\<close>; \<open>None\<close> when a conversion throws.\<close>

definition stats_step :: "runtime \<Rightarrow> stats \<Rightarrow> obj \<Rightarrow> stats option" where
  "stats_step rt st item =
     (let tv = js_or (getp item ''totalValue'') (JNum (Fin 0)) in
      case js_plus rt (totalValue st) tv of None \<Rightarrow> None | Some tot \<Rightarrow>
      case ToString rt (getp item ''category'') of None \<Rightarrow> None | Some k \<Rightarrow>
      case (case map_of (categories st) k of
              Some c \<Rightarrow>
                map_option (\<lambda>v. AList.update k \<lparr>count = num_add (count c) (Fin 1), cvalue = v\<rparr> (categories st))
                  (js_plus rt (cvalue c) tv)
            | None \<Rightarrow>
                if k \<in> set Object_prototype_keys
                then map_option (\<lambda>_. categories st) (ToPrimitive rt tv)
                else map_option (\<lambda>v. AList.update k \<lparr>count = num_add (Fin 0) (Fin 1), cvalue = v\<rparr> (categories st))
                       (js_plus rt (JNum (Fin 0)) tv))
      of None \<Rightarrow> None | Some cats \<Rightarrow>
      case js_less_num rt (getp item ''quantity'') (Fin 5) of None \<Rightarrow> None | Some low \<Rightarrow>
        Some (st\<lparr>totalValue := tot, categories := cats,
                 lowStock := (if low then lowStock st @ [low_entry item] else lowStock st)\<rparr>))"

fun stats_loop :: "runtime \<Rightarrow> stats \<Rightarrow> obj list \<Rightarrow> stats option" where
  "stats_loop rt st [] = Some st"
| "stats_loop rt st (item # items) =
     (case stats_step rt st item of None \<Rightarrow> None | Some st' \<Rightarrow> stats_loop rt st' items)"

definition calculateStats :: "runtime \<Rightarrow> obj list \<Rightarrow> stats option" where
  "calculateStats rt items =
     stats_loop rt \<lparr>totalItems = length items, totalValue = JNum (Fin 0),
                    categories = [], lowStock = []\<rparr> items"

section \<open>Texts of the responses and of the log\<close>

text \<open>The texts are UTF-8; each is given by its bytes.\<close>

definition utf8 :: "nat list \<Rightarrow> string" where
  "utf8 bs = map char_of bs"

definition MSG_MISSING_FIELDS :: string where
  "MSG_MISSING_FIELDS = utf8 [231, 188, 186, 229, 176, 145, 229, 191, 133, 229, 161, 171, 229, 173, 151, 230, 174, 181]"

definition DEFAULT_UNIT :: string where
  "DEFAULT_UNIT = utf8 [228, 184, 170]"

definition LOG_ADD_ITEM :: string where
  "LOG_ADD_ITEM = utf8 [230, 183, 187, 229, 138, 160, 231, 137, 169, 232, 181, 132]"

definition LOG_ADD_ITEM_PREFIX :: string where
  "LOG_ADD_ITEM_PREFIX = utf8 [230, 183, 187, 229, 138, 160, 231, 137, 169, 232, 181, 132, 58, 32]"

definition LOG_ADD_ITEM_QTY :: string where
  "LOG_ADD_ITEM_QTY = utf8 [44, 32, 230, 149, 176, 233, 135, 143, 58, 32]"

definition MSG_ITEM_ADDED :: string where
  "MSG_ITEM_ADDED = utf8 [231, 137, 169, 232, 181, 132, 230, 183, 187, 229, 138, 160, 230, 136, 144, 229, 138, 159]"

definition MSG_ADD_FAILED :: string where
  "MSG_ADD_FAILED = utf8 [230, 183, 187, 229, 138, 160, 231, 137, 169, 232, 181, 132, 229, 164, 177, 232, 180, 165]"

definition MSG_MISSING_ID :: string where
  "MSG_MISSING_ID = utf8 [231, 188, 186, 229, 176, 145, 231, 137, 169, 232, 181, 132, 73, 68]"

definition LOG_UPDATE_ITEM :: string where
  "LOG_UPDATE_ITEM = utf8 [230, 155, 180, 230, 150, 176, 231, 137, 169, 232, 181, 132]"

definition LOG_UPDATE_ITEM_PREFIX :: string where
  "LOG_UPDATE_ITEM_PREFIX = utf8 [230, 155, 180, 230, 150, 176, 231, 137, 169, 232, 181, 132, 73, 68, 58, 32]"

definition MSG_ITEM_UPDATED :: string where
  "MSG_ITEM_UPDATED = utf8 [231, 137, 169, 232, 181, 132, 230, 155, 180, 230, 150, 176, 230, 136, 144, 229, 138, 159]"

definition MSG_UPDATE_FAILED :: string where
  "MSG_UPDATE_FAILED = utf8 [230, 155, 180, 230, 150, 176, 231, 137, 169, 232, 181, 132, 229, 164, 177, 232, 180, 165]"














section \<open>Clock and random source\<close>

text \<open>\<open>Date.now().toString()\<close>\<close>

definition Date_now_toString :: "runtime \<Rightarrow> world \<Rightarrow> string \<times> world" where
  "Date_now_toString rt w = (now_ms rt (tick w), w\<lparr>tick := Suc (tick w)\<rparr>)"

text \<open>\<open>new Date().toISOString()\<close>\<close>

definition Date_toISOString :: "runtime \<Rightarrow> world \<Rightarrow> string \<times> world" where
  "Date_toISOString rt w = (now_iso rt (tick w), w\<lparr>tick := Suc (tick w)\<rparr>)"


section \<open>logOperation\<close>

text \<open>
  The parameter \<open>operator\<close> defaults to \<open>system\<close> when the argument is
  \<open>undefined\<close>. The flag \<open>add\<close> returns is dropped.
\<close>

definition logOperation :: "runtime \<Rightarrow> world \<Rightarrow> string \<Rightarrow> string \<Rightarrow> jsval \<Rightarrow> world" where
  "logOperation rt w operation details operator =
     (let (i, w1) = Date_now_toString rt w;
          (ts, w2) = Date_toISOString rt w1;
          log = [(''id'', JStr i), (''timestamp'', JStr ts), (''operation'', JStr operation),
                 (''details'', JStr details),
                 (''operator'', if operator = JUndefined then JStr ''system'' else operator)]
      in snd (Database_add w2 OPERATION_LOGS log))"

section \<open>The items handler\<close>

record response =
  status :: nat
  body :: obj

text \<open>\<open>n || 0\<close> for a number \<open>n\<close>\<close>

definition num_or0 :: "jsnum \<Rightarrow> jsnum" where
  "num_or0 n = (if falsy (JNum n) then Fin 0 else n)"

text \<open>The required-field check of \<open>handlePost\<close>.\<close>

definition missing_required :: "obj \<Rightarrow> bool" where
  "missing_required data \<longleftrightarrow>
     falsy (getp data ''name'') \<or> falsy (getp data ''category'')
     \<or> getp data ''quantity'' = JUndefined"

definition required_response :: response where
  "required_response =
     \<lparr>status = 400,
      body = [(''error'', JStr MSG_MISSING_FIELDS),
              (''required'', JArr [JStr ''name'', JStr ''category'', JStr ''quantity''])]\<rparr>"

text \<open>The object literal \<open>newItem\<close>, with the clock readings it takes.\<close>

definition newItem :: "runtime \<Rightarrow> world \<Rightarrow> obj \<Rightarrow> obj \<times> world" where
  "newItem rt w data =
     (let (i, w1) = Date_now_toString rt w;
          (date, w2) =
            (if falsy (getp data ''date'')
             then (let (iso, w') = Date_toISOString rt w1
                   in (JStr (takeWhile (\<lambda>c. c \<noteq> CHR ''T'') iso), w'))
             else (getp data ''date'', w1));
          (created, w3) = Date_toISOString rt w2;
          (updated, w4) = Date_toISOString rt w3
      in ([(''id'', JStr i),
           (''name'', getp data ''name''),
           (''category'', getp data ''category''),
           (''quantity'', JNum (parseInt rt (getp data ''quantity''))),
           (''unit'', js_or (getp data ''unit'') (JStr DEFAULT_UNIT)),
           (''spec'', js_or (getp data ''spec'') (JStr [])),
           (''price'', JNum (num_or0 (parseFloat rt (getp data ''price'')))),
           (''source'', js_or (getp data ''source'') (JStr [])),
           (''date'', date),
           (''operator'', js_or (getp data ''operator'') (JStr ''system'')),
           (''usage'', js_or (getp data ''usage'') (JStr [])),
           (''notes'', js_or (getp data ''notes'') (JStr [])),
           (''totalValue'',
              JNum (num_mul (num_or0 (parseInt rt (getp data ''quantity'')))
                            (num_or0 (parseFloat rt (getp data ''price''))))),
           (''createdAt'', JStr created),
           (''updatedAt'', JStr updated)], w4))"

text \<open>The details of the log entry: a template over name, quantity and unit.\<close>

definition add_details :: "runtime \<Rightarrow> obj \<Rightarrow> string option" where
  "add_details rt item =
     (case ToString rt (getp item ''name'') of None \<Rightarrow> None | Some n \<Rightarrow>
      case ToString rt (getp item ''quantity'') of None \<Rightarrow> None | Some q \<Rightarrow>
      case ToString rt (getp item ''unit'') of None \<Rightarrow> None | Some u \<Rightarrow>
        Some (LOG_ADD_ITEM_PREFIX @ n @ LOG_ADD_ITEM_QTY @ q @ u))"

text \<open>
  \<open>handlePost\<close>, on the parsed body. The response is \<open>None\<close> when an exception
  leaves the function; the caller then answers 500.
\<close>

definition handlePost :: "runtime \<Rightarrow> world \<Rightarrow> obj \<Rightarrow> response option \<times> world" where
  "handlePost rt w data =
     (if missing_required data then (Some required_response, w)
      else
        let (item, w1) = newItem rt w data;
            (success, w2) = Database_add w1 EMERGENCY_ITEMS item
        in if success then
             (case add_details rt item of
                None \<Rightarrow> (None, w2)
              | Some details \<Rightarrow>
                  (Some \<lparr>status = 200,
                         body = [(''success'', JBool True), (''data'', JObj item),
                                 (''message'', JStr MSG_ITEM_ADDED)]\<rparr>,
                   logOperation rt w2 LOG_ADD_ITEM details (getp item ''operator'')))
           else (Some \<lparr>status = 500, body = [(''error'', JStr MSG_ADD_FAILED)]\<rparr>, w2))"

text \<open>\<open>Array.prototype.find\<close>\<close>

definition find_item :: "(obj \<Rightarrow> bool) \<Rightarrow> obj list \<Rightarrow> obj option" where
  "find_item P xs = (case filter P xs of [] \<Rightarrow> None | x # _ \<Rightarrow> Some x)"

text \<open>
  The recomputation of \<open>totalValue\<close> in \<open>handlePut\<close>: the updates with the new
  field, or \<open>None\<close> when the product throws.
\<close>

definition recompute_total :: "runtime \<Rightarrow> world \<Rightarrow> jsval \<Rightarrow> obj \<Rightarrow> obj option \<times> world" where
  "recompute_total rt w i updates =
     (if getp updates ''quantity'' \<noteq> JUndefined \<or> getp updates ''price'' \<noteq> JUndefined
      then
        let (items, w1) = Database_get w EMERGENCY_ITEMS in
        case find_item (has_id i) items of
          Some item \<Rightarrow>
            (let quantity = (if getp updates ''quantity'' \<noteq> JUndefined
                             then getp updates ''quantity'' else getp item ''quantity'');
                 price = (if getp updates ''price'' \<noteq> JUndefined
                          then getp updates ''price'' else getp item ''price'')
             in (map_option (\<lambda>v. AList.update ''totalValue'' v updates)
                   (js_times rt quantity price), w1))
        | None \<Rightarrow> (Some updates, w1)
      else (Some updates, w))"

text \<open>
  \<open>handlePut\<close>, on the \<open>id\<close> parameter of the query (\<open>None\<close> when it is absent)
  and the parsed body.
\<close>

definition handlePut :: "runtime \<Rightarrow> world \<Rightarrow> string option \<Rightarrow> obj \<Rightarrow> response option \<times> world" where
  "handlePut rt w idp data =
     (case idp of
        None \<Rightarrow> (Some \<lparr>status = 400, body = [(''error'', JStr MSG_MISSING_ID)]\<rparr>, w)
      | Some i \<Rightarrow>
          if i = [] then (Some \<lparr>status = 400, body = [(''error'', JStr MSG_MISSING_ID)]\<rparr>, w)
          else
            let (now, w1) = Date_toISOString rt w;
                updates0 = AList.update ''updatedAt'' (JStr now) data
            in case recompute_total rt w1 (JStr i) updates0 of
                 (None, w2) \<Rightarrow> (None, w2)
               | (Some updates, w2) \<Rightarrow>
                   (let (success, w3) = Database_update w2 EMERGENCY_ITEMS (JStr i) updates
                    in if success then
                         (Some \<lparr>status = 200,
                                body = [(''success'', JBool True),
                                        (''message'', JStr MSG_ITEM_UPDATED)]\<rparr>,
                          logOperation rt w3 LOG_UPDATE_ITEM (LOG_UPDATE_ITEM_PREFIX @ i)
                            (js_or (getp updates ''operator'') (JStr ''system'')))
                       else (Some \<lparr>status = 500, body = [(''error'', JStr MSG_UPDATE_FAILED)]\<rparr>, w3)))"

section \<open>The migration handler\<close>

text \<open>Decimal digits of a natural number, as array indices are written.\<close>

fun dec_digits :: "nat \<Rightarrow> nat \<Rightarrow> string" where
  "dec_digits 0 n = []"
| "dec_digits (Suc fuel) n =
     (if n < 10 then [''0123456789'' ! n]
      else dec_digits fuel (n div 10) @ [''0123456789'' ! (n mod 10)])"

definition dec_str :: "nat \<Rightarrow> string" where
  "dec_str n = dec_digits (Suc n) n"












record migration =
  success :: bool
  emergencyItems :: nat
  outboundRecords :: nat
  returnRecords :: nat
  borrowRecords :: nat
  operationLogs :: nat
  errors :: "string list"
  message :: "string option"








section \<open>A reference runtime\<close>

text \<open>
  An instance of the runtime for the worked examples. Its parsers follow
  ECMAScript on ASCII text: leading white space is skipped, a sign is read,
  and the longest prefix that is a literal is converted (decimal or, after
  \<open>0x\<close>, hexadecimal digits for \<open>parseInt\<close>; digits, fraction and exponent, or
  \<open>Infinity\<close>, for \<open>parseFloat\<close>); without such a prefix the result is NaN.
  Numbers are printed in positional decimal notation, which is what ECMAScript
  prints for magnitudes from \<open>1e-6\<close> up to \<open>1e21\<close> with at most twenty fraction
  digits.
\<close>

definition is_space :: "char \<Rightarrow> bool" where
  "is_space c \<longleftrightarrow> c \<in> set [CHR '' '', CHR 0x09, CHR 0x0A, CHR 0x0B, CHR 0x0C, CHR 0x0D]"

definition is_digit :: "char \<Rightarrow> bool" where
  "is_digit c \<longleftrightarrow> (48::nat) \<le> of_char c \<and> (of_char c :: nat) \<le> 57"

definition is_hex :: "char \<Rightarrow> bool" where
  "is_hex c \<longleftrightarrow> is_digit c
     \<or> ((97::nat) \<le> of_char c \<and> (of_char c :: nat) \<le> 102)
     \<or> ((65::nat) \<le> of_char c \<and> (of_char c :: nat) \<le> 70)"

definition hex_val :: "char \<Rightarrow> nat" where
  "hex_val c =
     (let n = of_char c in
      if n \<le> 57 then n - 48 else if n \<le> 70 then n - 55 else n - 87)"

definition digits_val :: "nat \<Rightarrow> string \<Rightarrow> nat" where
  "digits_val base ds = foldl (\<lambda>a c. a * base + hex_val c) 0 ds"

text \<open>A leading sign: whether it is a minus, and the rest.\<close>

fun read_sign :: "string \<Rightarrow> bool \<times> string" where
  "read_sign (c # cs) =
     (if c = CHR ''-'' then (True, cs) else if c = CHR ''+'' then (False, cs)
      else (False, c # cs))"
| "read_sign [] = (False, [])"

fun read_hex_prefix :: "string \<Rightarrow> bool \<times> string" where
  "read_hex_prefix (a # b # cs) =
     (if a = CHR ''0'' \<and> (b = CHR ''x'' \<or> b = CHR ''X'') then (True, cs)
      else (False, a # b # cs))"
| "read_hex_prefix cs = (False, cs)"

definition ref_parseInt_str :: "string \<Rightarrow> jsnum" where
  "ref_parseInt_str s =
     (let (neg, s1) = read_sign (dropWhile is_space s);
          (hex, s2) = read_hex_prefix s1;
          ds = takeWhile (if hex then is_hex else is_digit) s2;
          n = of_nat (digits_val (if hex then 16 else 10) ds)
      in if ds = [] then NaN else Fin (if neg then - n else n))"

text \<open>An exponent part \<open>e\<close>, sign, digits: its value, or 0 when there is none.\<close>

definition read_exponent :: "string \<Rightarrow> int" where
  "read_exponent s =
     (case s of
        [] \<Rightarrow> 0
      | c # cs \<Rightarrow>
          if c = CHR ''e'' \<or> c = CHR ''E'' then
            (let (neg, r) = read_sign cs; es = takeWhile is_digit r
             in if es = [] then 0
                else (if neg then - int (digits_val 10 es) else int (digits_val 10 es)))
          else 0)"

definition scale10 :: "rat \<Rightarrow> int \<Rightarrow> rat" where
  "scale10 q e = (if 0 \<le> e then q * 10 ^ nat e else q / 10 ^ nat (- e))"

definition ref_parseFloat_str :: "string \<Rightarrow> jsnum" where
  "ref_parseFloat_str s =
     (let (neg, s1) = read_sign (dropWhile is_space s) in
      if take 8 s1 = ''Infinity'' then (if neg then NegInf else PosInf)
      else
        let ds = takeWhile is_digit s1;
            r1 = dropWhile is_digit s1;
            fs = (case r1 of [] \<Rightarrow> [] | c # cs \<Rightarrow> if c = CHR ''.'' then takeWhile is_digit cs else []);
            r2 = (case r1 of [] \<Rightarrow> [] | c # cs \<Rightarrow> if c = CHR ''.'' then dropWhile is_digit cs else r1);
            m = of_nat (digits_val 10 ds) + of_nat (digits_val 10 fs) / 10 ^ length fs;
            v = scale10 m (read_exponent r2)
        in if ds = [] \<and> fs = [] then NaN else Fin (if neg then - v else v))"

text \<open>Up to \<open>fuel\<close> decimal digits of a fraction below 1.\<close>

fun frac_digits :: "nat \<Rightarrow> rat \<Rightarrow> string" where
  "frac_digits 0 f = []"
| "frac_digits (Suc fuel) f =
     (if f = 0 then []
      else ''0123456789'' ! nat \<lfloor>f * 10\<rfloor> # frac_digits fuel (f * 10 - of_int \<lfloor>f * 10\<rfloor>))"

fun ref_num_to_str :: "jsnum \<Rightarrow> string" where
  "ref_num_to_str NaN = ''NaN''"
| "ref_num_to_str PosInf = ''Infinity''"
| "ref_num_to_str NegInf = ''-Infinity''"
| "ref_num_to_str (Fin q) =
     (let a = \<bar>q\<bar>; n = nat \<lfloor>a\<rfloor>; f = a - of_nat n
      in (if q < 0 then ''-'' else []) @ dec_str n
         @ (if f = 0 then [] else CHR ''.'' # frac_digits 20 f))"

text \<open>
  The string of an array or object that came from JSON: the elements joined
  by commas (\<open>null\<close> and \<open>undefined\<close> as the empty string) for an array,
  \<open>[object Object]\<close> for an object; an object with a property \<open>toString\<close> of
  its own has no callable conversion and throws.
\<close>

fun ref_str :: "jsval \<Rightarrow> string option"
  and ref_join :: "jsval list \<Rightarrow> string option" where
  "ref_str JUndefined = Some ''undefined''"
| "ref_str JNull = Some ''null''"
| "ref_str (JBool b) = Some (if b then ''true'' else ''false'')"
| "ref_str (JNum n) = Some (ref_num_to_str n)"
| "ref_str (JStr s) = Some s"
| "ref_str (JArr xs) = ref_join xs"
| "ref_str (JObj r) =
     (if ''toString'' \<in> set (map fst r) then None else Some ''[object Object]'')"
| "ref_join [] = Some []"
| "ref_join (x # xs) =
     (case (if x = JNull \<or> x = JUndefined then Some [] else ref_str x) of
        None \<Rightarrow> None
      | Some s \<Rightarrow>
          (if xs = [] then Some s
           else case ref_join xs of None \<Rightarrow> None | Some t \<Rightarrow> Some (s @ '','' @ t)))"

text \<open>
  Whether a string, after its sign, is a decimal literal and nothing else:
  digits with an optional fraction and exponent, or \<open>Infinity\<close>.
\<close>

definition decimal_literal :: "string \<Rightarrow> bool" where
  "decimal_literal s =
     (let r0 = snd (read_sign s);
          ds = takeWhile is_digit r0;
          r1 = dropWhile is_digit r0;
          fs = (case r1 of [] \<Rightarrow> [] | c # cs \<Rightarrow> if c = CHR ''.'' then takeWhile is_digit cs else []);
          r2 = (case r1 of [] \<Rightarrow> [] | c # cs \<Rightarrow> if c = CHR ''.'' then dropWhile is_digit cs else r1);
          r3 = (case r2 of
                  [] \<Rightarrow> []
                | c # cs \<Rightarrow>
                    if (c = CHR ''e'' \<or> c = CHR ''E'')
                       \<and> takeWhile is_digit (snd (read_sign cs)) \<noteq> []
                    then dropWhile is_digit (snd (read_sign cs)) else r2)
      in r0 = ''Infinity'' \<or> ((ds \<noteq> [] \<or> fs \<noteq> []) \<and> r3 = []))"

text \<open>
  The numeric value of a string: 0 for a blank string, the value of a decimal
  literal surrounded by white space, NaN otherwise. (ECMAScript also reads
  hexadecimal, octal and binary literals; they are NaN here.)
\<close>

definition ref_str_to_num :: "string \<Rightarrow> jsnum" where
  "ref_str_to_num s =
     (let t = rev (dropWhile is_space (rev (dropWhile is_space s)))
      in if t = [] then Fin 0
         else if decimal_literal t then ref_parseFloat_str t else NaN)"

definition ref_runtime :: runtime where
  "ref_runtime =
     \<lparr>parseInt = (\<lambda>v. case ref_str v of None \<Rightarrow> NaN | Some s \<Rightarrow> ref_parseInt_str s),
      parseFloat = (\<lambda>v. case ref_str v of None \<Rightarrow> NaN | Some s \<Rightarrow> ref_parseFloat_str s),
      to_primitive = (\<lambda>v. map_option JStr (ref_str v)),
      num_to_str = ref_num_to_str,
      str_to_num = ref_str_to_num,
      now_ms = (\<lambda>n. ''1700000000'' @ dec_str (100 + n)),
      now_iso = (\<lambda>n. ''2024-01-01T00:00:00.'' @ dec_str (100 + n) @ ''Z''),
      random_str = (\<lambda>n. ''0.'' @ dec_str (5 + n)),
      error_message = ''TypeError''\<rparr>"

text \<open>The collection the store holds under a key (empty when the key is absent).\<close>

definition stored :: "world \<Rightarrow> string \<Rightarrow> obj list" where
  "stored w key = (case kv w key of None \<Rightarrow> [] | Some d \<Rightarrow> d)"

section \<open>Example data for the collection store and the items handler\<close>

text \<open>A store with two items, and the faults of the calls to come.\<close>

definition item_a :: obj where
  "item_a = [(''id'', JStr ''1''), (''name'', JStr ''tent''), (''quantity'', JNum (Fin 4)),
             (''price'', JNum (Fin 10)), (''totalValue'', JNum (Fin 40))]"
definition item_b :: obj where
  "item_b = [(''id'', JStr ''2''), (''name'', JStr ''rope''), (''quantity'', JNum (Fin 7)),
             (''price'', JNum (Fin 3)), (''totalValue'', JNum (Fin 21))]"

definition world0 :: "bool list \<Rightarrow> world" where
  "world0 fs = \<lparr>kv = Map.empty(EMERGENCY_ITEMS \<mapsto> [item_a, item_b]), faults = fs, calls = [], tick = 0\<rparr>"

definition body_bad_qty :: obj where
  "body_bad_qty = [(''name'', JStr ''tent''), (''category'', JStr ''A''),
                   (''quantity'', JStr ''abc''), (''price'', JNum (Fin 2))]"

text \<open>The updates \<open>handlePut\<close> hands to \<open>Database.update\<close> when the total is \<open>v\<close>.\<close>

definition put_updates :: "runtime \<Rightarrow> world \<Rightarrow> obj \<Rightarrow> jsval \<Rightarrow> obj" where
  "put_updates rt w data v =
     AList.update ''totalValue'' v (AList.update ''updatedAt'' (JStr (now_iso rt (tick w))) data)"

definition body_price :: obj where
  "body_price = [(''price'', JNum (Fin 20))]"
definition body_quantity :: obj where
  "body_quantity = [(''quantity'', JNum (Fin 5))]"

section \<open>Items the statistics are stated for\<close>

fun is_num :: "jsval \<Rightarrow> bool" where
  "is_num (JNum _) = True"
| "is_num _ = False"

fun the_num :: "jsval \<Rightarrow> jsnum" where
  "the_num (JNum n) = n"
| "the_num _ = NaN"

fun is_primitive :: "jsval \<Rightarrow> bool" where
  "is_primitive (JArr _) = False"
| "is_primitive (JObj _) = False"
| "is_primitive _ = True"

text \<open>\<open>item.totalValue || 0\<close>, the amount an item adds to the totals.\<close>

definition item_total :: "obj \<Rightarrow> jsval" where
  "item_total item = js_or (getp item ''totalValue'') (JNum (Fin 0))"

text \<open>
  An item as the data model has it: the total is a number or missing, the
  category is a string that is not the name of a member of \<open>Object.prototype\<close>,
  and the quantity is a primitive value.
\<close>

definition stats_item :: "obj \<Rightarrow> bool" where
  "stats_item item \<longleftrightarrow>
     is_num (item_total item)
     \<and> (case getp item ''category'' of
          JStr c \<Rightarrow> c \<notin> set Object_prototype_keys
        | _ \<Rightarrow> False)
     \<and> is_primitive (getp item ''quantity'')"

text \<open>The category of such an item, and whether it is in a given category.\<close>

definition category_of :: "obj \<Rightarrow> string" where
  "category_of item = (case getp item ''category'' of JStr c \<Rightarrow> c | _ \<Rightarrow> [])"

definition in_category :: "string \<Rightarrow> obj \<Rightarrow> bool" where
  "in_category c item \<longleftrightarrow> category_of item = c"

text \<open>The sum of the totals of a list of items, added up from 0 in order.\<close>

definition sum_totals :: "obj list \<Rightarrow> jsnum" where
  "sum_totals items = foldl num_add (Fin 0) (map (\<lambda>item. the_num (item_total item)) items)"

text \<open>\<open>item.quantity < 5\<close> for a primitive quantity.\<close>

definition low_stock :: "runtime \<Rightarrow> obj \<Rightarrow> bool" where
  "low_stock rt item \<longleftrightarrow> num_less (prim_to_number rt (getp item ''quantity'')) (Fin 5)"

text \<open>The three items of the specification's example, and an item with a text as total.\<close>

definition stats_item1 :: obj where
  "stats_item1 = [(''category'', JStr ''A''), (''totalValue'', JNum (Fin 10)), (''quantity'', JNum (Fin 2))]"
definition stats_item2 :: obj where
  "stats_item2 = [(''category'', JStr ''A''), (''totalValue'', JNum (Fin 5)), (''quantity'', JNum (Fin 1))]"
definition stats_item3 :: obj where
  "stats_item3 = [(''category'', JStr ''B''), (''totalValue'', JNum (Fin 0)), (''quantity'', JNum (Fin 10))]"

definition stats_example :: "obj list" where
  "stats_example = [stats_item1, stats_item2, stats_item3]"

definition text_total_item :: obj where
  "text_total_item = [(''category'', JStr ''A''), (''totalValue'', JStr ''5''), (''quantity'', JNum (Fin 1))]"

definition constructor_item :: obj where
  "constructor_item =
     [(''category'', JStr ''constructor''), (''totalValue'', JNum (Fin 10)), (''quantity'', JNum (Fin 2))]"

text \<open>What the loop makes of one category's entry, given the totals added to it.\<close>

fun cat_fold :: "category_stats option \<Rightarrow> jsnum list \<Rightarrow> category_stats option" where
  "cat_fold m [] = m"
| "cat_fold m (x # xs) =
     cat_fold (Some (case m of
                 None \<Rightarrow> \<lparr>count = num_add (Fin 0) (Fin 1), cvalue = JNum (num_add (Fin 0) x)\<rparr>
               | Some c \<Rightarrow> \<lparr>count = num_add (count c) (Fin 1),
                            cvalue = JNum (num_add (the_num (cvalue c)) x)\<rparr>)) xs"

section \<open>Backups the migration is stated for\<close>


















section \<open>Properties of the collection store\<close>

lemma findIndex_None: "findIndex P xs = None \<longleftrightarrow> (\<forall>x \<in> set xs. \<not> P x)"
  by (induction xs) auto

lemma backend_call_kv: "kv (snd (backend_call c w)) = kv w"
  by (simp add: backend_call_def split: list.splits)

lemma backend_call_calls: "calls (snd (backend_call c w)) = calls w @ [c]"
  by (simp add: backend_call_def split: list.splits)

lemma backend_call_fst: "fst (backend_call c w) = nth_fault w 0"
  by (simp add: backend_call_def nth_fault_def split: list.splits)

lemma backend_call_faults: "faults (snd (backend_call c w)) = tl (faults w)"
  by (simp add: backend_call_def split: list.splits)

lemma nth_fault_tl: "faults w' = tl (faults w) \<Longrightarrow> nth_fault w' n = nth_fault w (Suc n)"
  by (cases "faults w") (auto simp: nth_fault_def)

lemma Database_get_kv: "kv (snd (Database_get w key)) = kv w"
  by (simp add: Database_get_def backend_call_kv split: prod.splits if_splits)
     (metis backend_call_kv snd_conv)

lemma Database_get_calls: "calls (snd (Database_get w key)) = calls w @ [KGet key]"
  by (simp add: Database_get_def split: prod.splits if_splits)
     (metis backend_call_calls snd_conv)

lemma Database_get_faults: "faults (snd (Database_get w key)) = tl (faults w)"
  by (simp add: Database_get_def split: prod.splits if_splits)
     (metis backend_call_faults snd_conv)

lemma Database_get_fst:
  "fst (Database_get w key) =
     (if nth_fault w 0 then [] else (case kv w key of None \<Rightarrow> [] | Some d \<Rightarrow> d))"
  by (simp add: Database_get_def split: prod.splits)
     (metis backend_call_fst backend_call_kv fst_conv snd_conv)

lemma Database_set_fst: "fst (Database_set w key d) = (\<not> nth_fault w 0)"
  by (simp add: Database_set_def split: prod.splits)
     (metis backend_call_fst fst_conv)

lemma Database_set_kv:
  "kv (snd (Database_set w key d)) = (if nth_fault w 0 then kv w else (kv w)(key \<mapsto> d))"
  by (simp add: Database_set_def split: prod.splits)
     (metis backend_call_fst backend_call_kv fst_conv snd_conv)

lemma Database_set_faults: "faults (snd (Database_set w key d)) = tl (faults w)"
  by (simp add: Database_set_def split: prod.splits if_splits)
     (metis backend_call_faults snd_conv)

lemma Database_get_stored: "\<forall>r \<in> set (stored w key). P r \<Longrightarrow> \<forall>r \<in> set (fst (Database_get w key)). P r"
  by (simp add: Database_get_fst stored_def)

section \<open>Claims about the collection store\<close>

text \<open>
  C3. When no record of the stored collection has the given id, \<open>update\<close>
  returns false, the store is exactly as before and no write was issued to
  the backend. This holds whether or not the read inside \<open>update\<close> fails.
\<close>

theorem update_unknown_id:
  assumes "\<forall>r \<in> set (stored w key). \<not> has_id i r"
  shows "fst (Database_update w key i u) = False
       \<and> kv (snd (Database_update w key i u)) = kv w
       \<and> filter is_write (calls (snd (Database_update w key i u))) = filter is_write (calls w)"
proof -
  obtain d w1 where g: "Database_get w key = (d, w1)" by (cases "Database_get w key")
  have "\<forall>r \<in> set d. \<not> has_id i r"
    using Database_get_stored[OF assms] g by simp
  then have none: "findIndex (has_id i) d = None"
    by (simp add: findIndex_None)
  have w1: "kv w1 = kv w" "calls w1 = calls w @ [KGet key]"
    using Database_get_kv[of w key] Database_get_calls[of w key] g by simp_all
  show ?thesis
    by (simp add: Database_update_def g none w1)
qed

text \<open>C3 on the example store: no record has the id \<open>9\<close>.\<close>

theorem update_unknown_id_witness:
  "stored (world0 []) EMERGENCY_ITEMS = [item_a, item_b]
   \<and> \<not> has_id (JStr ''9'') item_a \<and> \<not> has_id (JStr ''9'') item_b
   \<and> fst (Database_update (world0 []) EMERGENCY_ITEMS (JStr ''9'') [(''price'', JNum (Fin 2))]) = False
   \<and> kv (snd (Database_update (world0 []) EMERGENCY_ITEMS (JStr ''9'') [(''price'', JNum (Fin 2))]))
       = kv (world0 [])"
proof -
  have s: "stored (world0 []) EMERGENCY_ITEMS = [item_a, item_b]"
    by (simp add: stored_def world0_def)
  have n: "\<not> has_id (JStr ''9'') item_a" "\<not> has_id (JStr ''9'') item_b"
    by (simp_all add: has_id_def getp_def item_a_def item_b_def)
  have h: "\<forall>r \<in> set (stored (world0 []) EMERGENCY_ITEMS). \<not> has_id (JStr ''9'') r"
    using s n by simp
  from update_unknown_id[OF h] s n show ?thesis by simp
qed

text \<open>
  C4. \<open>delete\<close> returns false exactly when its write to the backend throws
  (the second backend call it makes), whatever the collection holds and
  however many records match, so removing nothing is still a success. When it
  returns true the collection stored under the key is what \<open>delete\<close> read
  without the records of that id, and a following \<open>get\<close> returns no record
  with that id.
\<close>

theorem delete_removes_all:
  "fst (Database_delete w key i) = (\<not> nth_fault w 1)
   \<and> (fst (Database_delete w key i) \<longrightarrow>
        kv (snd (Database_delete w key i)) key
          = Some (filter (\<lambda>r. \<not> has_id i r) (fst (Database_get w key)))
      \<and> (\<forall>r \<in> set (fst (Database_get (snd (Database_delete w key i)) key)). \<not> has_id i r))"
proof -
  obtain d w1 where g: "Database_get w key = (d, w1)" by (cases "Database_get w key")
  have f1: "faults w1 = tl (faults w)"
    using Database_get_faults[of w key] g by simp
  have nf: "nth_fault w1 0 = nth_fault w 1"
    using nth_fault_tl[OF f1, of 0] by simp
  have del: "Database_delete w key i = Database_set w1 key (filter (\<lambda>r. \<not> has_id i r) d)"
    by (simp add: Database_delete_def g)
  show ?thesis
    by (simp add: del g Database_set_fst Database_set_kv nf Database_get_fst)
qed

text \<open>
  C4 on the example store: deleting id \<open>1\<close> succeeds and leaves no such
  record, deleting the unknown id \<open>3\<close> succeeds, and a failing write makes
  \<open>delete\<close> return false.
\<close>

theorem delete_removes_all_witness:
  "fst (Database_delete (world0 []) EMERGENCY_ITEMS (JStr ''1''))
   \<and> kv (snd (Database_delete (world0 []) EMERGENCY_ITEMS (JStr ''1''))) EMERGENCY_ITEMS = Some [item_b]
   \<and> fst (Database_delete (world0 []) EMERGENCY_ITEMS (JStr ''3''))
   \<and> \<not> fst (Database_delete (world0 [False, True]) EMERGENCY_ITEMS (JStr ''1''))"
  using delete_removes_all[of "world0 []" EMERGENCY_ITEMS "JStr ''1''"]
        delete_removes_all[of "world0 []" EMERGENCY_ITEMS "JStr ''3''"]
        delete_removes_all[of "world0 [False, True]" EMERGENCY_ITEMS "JStr ''1''"]
  by (simp add: nth_fault_def world0_def Database_get_fst has_id_def getp_def item_a_def item_b_def)

text \<open>
  C8 as stated fails: when the read inside \<open>add\<close> throws, \<open>get\<close> hands back
  the empty array, \<open>add\<close> writes the new record alone and reports success. The
  two records stored before are gone, so the following \<open>get\<close> does not return
  the previous collection with the record appended.
\<close>

theorem add_then_get_counterexample:
  "fst (Database_add (world0 [True]) EMERGENCY_ITEMS [(''id'', JStr ''3'')])
   \<and> fst (Database_get (snd (Database_add (world0 [True]) EMERGENCY_ITEMS [(''id'', JStr ''3'')])) EMERGENCY_ITEMS)
       \<noteq> stored (world0 [True]) EMERGENCY_ITEMS @ [[(''id'', JStr ''3'')]]
   \<and> fst (Database_get (snd (Database_add (world0 [True]) EMERGENCY_ITEMS [(''id'', JStr ''3'')])) EMERGENCY_ITEMS)
       = [[(''id'', JStr ''3'')]]"
  by (simp add: Database_add_def Database_get_def Database_set_def backend_call_def world0_def stored_def)

text \<open>
  C8, amended. When the read inside \<open>add\<close> does not throw, \<open>add\<close> returns true
  and the read of the following \<open>get\<close> does not throw either, that \<open>get\<close>
  returns the collection stored before with the record appended at its end.
\<close>

theorem add_then_get:
  assumes "\<not> nth_fault w 0" and "fst (Database_add w key r)" and "\<not> nth_fault w 2"
  shows "fst (Database_get (snd (Database_add w key r)) key) = stored w key @ [r]"
proof -
  obtain d w1 where g: "Database_get w key = (d, w1)" by (cases "Database_get w key")
  have d: "d = stored w key"
    using Database_get_fst[of w key] g assms(1) by (simp add: stored_def)
  have f1: "faults w1 = tl (faults w)"
    using Database_get_faults[of w key] g by simp
  have add: "Database_add w key r = Database_set w1 key (d @ [r])"
    by (simp add: Database_add_def g)
  have ok: "\<not> nth_fault w1 0"
    using assms(2) by (simp add: add Database_set_fst)
  have f2: "faults (snd (Database_add w key r)) = tl (faults w1)"
    by (simp add: add Database_set_faults)
  have "nth_fault (snd (Database_add w key r)) 0 = nth_fault w 2"
    using nth_fault_tl[OF f2, of 0] nth_fault_tl[OF f1, of 1] by (simp add: numeral_2_eq_2)
  then show ?thesis
    using assms(3) by (simp add: Database_get_fst add Database_set_kv ok d)
qed

text \<open>C8, amended, on the example store.\<close>

theorem add_then_get_witness:
  "\<not> nth_fault (world0 []) 0 \<and> fst (Database_add (world0 []) EMERGENCY_ITEMS [(''id'', JStr ''3'')])
   \<and> fst (Database_get (snd (Database_add (world0 []) EMERGENCY_ITEMS [(''id'', JStr ''3'')])) EMERGENCY_ITEMS)
       = [item_a, item_b, [(''id'', JStr ''3'')]]"
proof -
  have h1: "\<not> nth_fault (world0 []) 0" "\<not> nth_fault (world0 []) 2"
    by (simp_all add: nth_fault_def world0_def)
  have h2: "fst (Database_add (world0 []) EMERGENCY_ITEMS [(''id'', JStr ''3'')])"
    by (simp add: Database_add_def Database_get_def Database_set_def backend_call_def world0_def)
  from add_then_get[OF h1(1) h2 h1(2)] h1 h2 show ?thesis
    by (simp add: stored_def world0_def)
qed

section \<open>Claims about the creation of items\<close>

lemma newItem_world:
  "kv (snd (newItem rt w data)) = kv w"
  "faults (snd (newItem rt w data)) = faults w"
  "calls (snd (newItem rt w data)) = calls w"
  by (simp_all add: newItem_def Date_now_toString_def Date_toISOString_def Let_def split: prod.splits)

lemma nth_fault_cong: "faults w' = faults w \<Longrightarrow> nth_fault w' n = nth_fault w n"
  by (simp add: nth_fault_def)

lemma Database_add_fst:
  "fst (Database_add w key r) = (\<not> nth_fault w 1)"
proof -
  obtain d w1 where g: "Database_get w key = (d, w1)" by (cases "Database_get w key")
  have "faults w1 = tl (faults w)" using Database_get_faults[of w key] g by simp
  from nth_fault_tl[OF this, of 0] show ?thesis
    by (simp add: Database_add_def g Database_set_fst)
qed

lemma Database_add_kv:
  "\<not> nth_fault w 0 \<Longrightarrow> \<not> nth_fault w 1 \<Longrightarrow>
   kv (snd (Database_add w key r)) = (kv w)(key \<mapsto> stored w key @ [r])"
proof -
  assume a: "\<not> nth_fault w 0" "\<not> nth_fault w 1"
  obtain d w1 where g: "Database_get w key = (d, w1)" by (cases "Database_get w key")
  have f: "faults w1 = tl (faults w)" using Database_get_faults[of w key] g by simp
  have k: "kv w1 = kv w" using Database_get_kv[of w key] g by simp
  have d: "d = stored w key" using Database_get_fst[of w key] g a(1) by (simp add: stored_def)
  from nth_fault_tl[OF f, of 0] a(2) show ?thesis
    by (simp add: Database_add_def g Database_set_kv k d)
qed

lemma Database_add_kv_other:
  "key' \<noteq> key \<Longrightarrow> kv (snd (Database_add w key r)) key' = kv w key'"
proof -
  assume a: "key' \<noteq> key"
  obtain d w1 where g: "Database_get w key = (d, w1)" by (cases "Database_get w key")
  have k: "kv w1 = kv w" using Database_get_kv[of w key] g by simp
  show ?thesis using a
    by (simp add: Database_add_def g Database_set_kv k)
qed

lemma logOperation_kv_other:
  "key \<noteq> OPERATION_LOGS \<Longrightarrow> kv (logOperation rt w op details who) key = kv w key"
  by (simp add: logOperation_def Date_now_toString_def Date_toISOString_def Let_def
        Database_add_kv_other split: prod.splits)

lemma keys_distinct:
  "EMERGENCY_ITEMS \<noteq> OPERATION_LOGS" "OUTBOUND_RECORDS \<noteq> OPERATION_LOGS"
  "RETURN_RECORDS \<noteq> OPERATION_LOGS" "BORROW_RECORDS \<noteq> OPERATION_LOGS"
  "EMERGENCY_ITEMS \<noteq> OUTBOUND_RECORDS" "EMERGENCY_ITEMS \<noteq> RETURN_RECORDS"
  "EMERGENCY_ITEMS \<noteq> BORROW_RECORDS" "OUTBOUND_RECORDS \<noteq> RETURN_RECORDS"
  "OUTBOUND_RECORDS \<noteq> BORROW_RECORDS" "RETURN_RECORDS \<noteq> BORROW_RECORDS"
  by (simp_all add: EMERGENCY_ITEMS_def OPERATION_LOGS_def OUTBOUND_RECORDS_def
        RETURN_RECORDS_def BORROW_RECORDS_def)



lemma handlePost_stores:
  assumes "\<not> missing_required data" "\<not> nth_fault w 0" "\<not> nth_fault w 1"
  shows "kv (snd (handlePost rt w data)) EMERGENCY_ITEMS
           = Some (stored w EMERGENCY_ITEMS @ [fst (newItem rt w data)])"
    and "fst (handlePost rt w data) =
           (case add_details rt (fst (newItem rt w data)) of
              None \<Rightarrow> None
            | Some _ \<Rightarrow> Some \<lparr>status = 200,
                 body = [(''success'', JBool True), (''data'', JObj (fst (newItem rt w data))),
                         (''message'', JStr MSG_ITEM_ADDED)]\<rparr>)"
proof -
  obtain item w1 where n: "newItem rt w data = (item, w1)" by (cases "newItem rt w data")
  obtain ok w2 where a: "Database_add w1 EMERGENCY_ITEMS item = (ok, w2)"
    by (cases "Database_add w1 EMERGENCY_ITEMS item")
  have w1: "kv w1 = kv w" "faults w1 = faults w"
    using newItem_world(1,2)[of rt w data] n by simp_all
  have f: "\<not> nth_fault w1 0" "\<not> nth_fault w1 1"
    using assms(2,3) nth_fault_cong[OF w1(2)] by simp_all
  have ok: "ok" using Database_add_fst[of w1 EMERGENCY_ITEMS item] a f by simp
  have st: "stored w1 EMERGENCY_ITEMS = stored w EMERGENCY_ITEMS"
    by (simp add: stored_def w1)
  have k2: "kv w2 EMERGENCY_ITEMS = Some (stored w EMERGENCY_ITEMS @ [item])"
    using Database_add_kv[OF f, of EMERGENCY_ITEMS item] a st by simp
  show "kv (snd (handlePost rt w data)) EMERGENCY_ITEMS
           = Some (stored w EMERGENCY_ITEMS @ [fst (newItem rt w data)])"
    using assms(1) ok k2
    by (simp add: handlePost_def n a logOperation_kv_other keys_distinct split: option.splits)
  show "fst (handlePost rt w data) =
           (case add_details rt (fst (newItem rt w data)) of
              None \<Rightarrow> None
            | Some _ \<Rightarrow> Some \<lparr>status = 200,
                 body = [(''success'', JBool True), (''data'', JObj (fst (newItem rt w data))),
                         (''message'', JStr MSG_ITEM_ADDED)]\<rparr>)"
    using assms(1) ok
    by (simp add: handlePost_def n a split: option.splits)
qed





lemma ref_parseInt_abc: "parseInt ref_runtime (JStr ''abc'') = NaN"
  by (simp add: ref_runtime_def ref_parseInt_str_def is_space_def is_digit_def)

lemma ref_parseFloat_2: "parseFloat ref_runtime (JNum (Fin 2)) = Fin 2"
  by code_simp

text \<open>The fields of \<open>newItem\<close> that the total is computed from.\<close>

lemma getp_Cons: "getp ((k, v) # r) k' = (if k = k' then v else getp r k')"
  by (simp add: getp_def)

lemma newItem_fields:
  "getp (fst (newItem rt w data)) ''quantity'' = JNum (parseInt rt (getp data ''quantity''))"
  "getp (fst (newItem rt w data)) ''price'' = JNum (num_or0 (parseFloat rt (getp data ''price'')))"
  "getp (fst (newItem rt w data)) ''totalValue'' =
     JNum (num_mul (num_or0 (parseInt rt (getp data ''quantity'')))
                   (num_or0 (parseFloat rt (getp data ''price''))))"
  by (simp_all add: newItem_def split_def Let_def getp_Cons)

lemma newItem_total:
  "parseInt rt (getp data ''quantity'') \<noteq> NaN \<Longrightarrow>
   getp (fst (newItem rt w data)) ''totalValue'' =
     JNum (num_mul (parseInt rt (getp data ''quantity''))
                   (num_or0 (parseFloat rt (getp data ''price''))))"
proof -
  assume a: "parseInt rt (getp data ''quantity'') \<noteq> NaN"
  have "num_or0 n = n" if "n \<noteq> NaN" for n
    using that by (cases n) (auto simp: num_or0_def)
  from this[OF a] show ?thesis by (simp add: newItem_fields)
qed

text \<open>
  C1. The stored total is to be the product of the stored quantity and price.
  The body \<open>{name: "tent", category: "A", quantity: "abc", price: 2}\<close>
  passes the required-field check, and its record is stored with \<open>quantity\<close>
  NaN and \<open>price\<close> 2, whose product is NaN, and with \<open>totalValue\<close> 0: the
  total is computed from \<open>parseInt(quantity) || 0\<close>, the stored quantity from
  \<open>parseInt(quantity)\<close> alone. (\<open>newItem_total\<close> above: the two agree
  whenever the quantity parses.)
\<close>

theorem create_total_unparsable_quantity:
  "\<not> missing_required body_bad_qty
   \<and> getp (fst (newItem ref_runtime (world0 []) body_bad_qty)) ''quantity'' = JNum NaN
   \<and> getp (fst (newItem ref_runtime (world0 []) body_bad_qty)) ''price'' = JNum (Fin 2)
   \<and> getp (fst (newItem ref_runtime (world0 []) body_bad_qty)) ''totalValue'' = JNum (Fin 0)
   \<and> num_mul NaN (Fin 2) \<noteq> Fin 0
   \<and> kv (snd (handlePost ref_runtime (world0 []) body_bad_qty)) EMERGENCY_ITEMS
       = Some [item_a, item_b, fst (newItem ref_runtime (world0 []) body_bad_qty)]"
proof -
  have m: "\<not> missing_required body_bad_qty"
    by (simp add: missing_required_def body_bad_qty_def getp_def)
  have q: "getp body_bad_qty ''quantity'' = JStr ''abc''" "getp body_bad_qty ''price'' = JNum (Fin 2)"
    by (simp_all add: body_bad_qty_def getp_def)
  have f: "\<not> nth_fault (world0 []) 0" "\<not> nth_fault (world0 []) 1"
    by (simp_all add: nth_fault_def world0_def)
  have s: "stored (world0 []) EMERGENCY_ITEMS = [item_a, item_b]"
    by (simp add: stored_def world0_def)
  show ?thesis
    using m handlePost_stores(1)[OF m f, of ref_runtime] s
    by (simp add: newItem_fields q ref_parseInt_abc ref_parseFloat_2 num_or0_def)
qed

section \<open>Claims about the update of items\<close>

lemma map_of_spread: "map_of (spread a b) = map_of a ++ map_of (rev b)"
proof -
  have "map_of (foldl (\<lambda>acc (k, v). AList.update k v acc) a b) = map_of a ++ map_of (rev b)" for a
  proof (induction b arbitrary: a)
    case Nil
    show ?case by simp
  next
    case (Cons kv b)
    obtain k v where kv: "kv = (k, v)" by (cases kv)
    have "map_of (AList.update k v a) ++ map_of (rev b)
            = map_of a ++ (map_of [(k, v)] ++ map_of (rev b))"
      by (simp add: update_conv' fun_eq_iff map_add_def split: option.splits)
    then show ?case
      using Cons.IH[of "AList.update k v a"] by (simp add: kv)
  qed
  then show ?thesis by (simp add: spread_def)
qed

lemma getp_spread:
  "getp (spread a b) k = (case map_of (rev b) k of None \<Rightarrow> getp a k | Some v \<Rightarrow> v)"
  by (simp add: getp_def map_of_spread map_add_def split: option.splits)

lemma getp_update:
  "getp (AList.update k v r) k' = (if k' = k then v else getp r k')"
  by (simp add: getp_def update_conv')

lemma find_item_findIndex:
  "find_item P xs = Some x \<Longrightarrow> \<exists>n. findIndex P xs = Some n \<and> n < length xs \<and> xs ! n = x"
proof (induction xs)
  case Nil
  then show ?case by (simp add: find_item_def)
next
  case (Cons y ys)
  show ?case
  proof (cases "P y")
    case True
    with Cons.prems show ?thesis by (simp add: find_item_def)
  next
    case False
    with Cons.prems have "find_item P ys = Some x" by (simp add: find_item_def)
    from Cons.IH[OF this] False show ?thesis by auto
  qed
qed

lemma Date_toISOString_world:
  "kv (snd (Date_toISOString rt w)) = kv w"
  "faults (snd (Date_toISOString rt w)) = faults w"
  "fst (Date_toISOString rt w) = now_iso rt (tick w)"
  by (simp_all add: Date_toISOString_def)

lemma Database_update_found:
  assumes "findIndex (has_id i) (stored w key) = Some n"
    and "\<not> nth_fault w 0" "\<not> nth_fault w 1"
  shows "Database_update w key i u
         = Database_set (snd (Database_get w key)) key
             ((stored w key)[n := spread (stored w key ! n) u])"
    and "fst (Database_update w key i u)"
    and "kv (snd (Database_update w key i u))
         = (kv w)(key \<mapsto> (stored w key)[n := spread (stored w key ! n) u])"
proof -
  obtain d w1 where g: "Database_get w key = (d, w1)" by (cases "Database_get w key")
  have d: "d = stored w key" using Database_get_fst[of w key] g assms(2) by (simp add: stored_def)
  have f: "faults w1 = tl (faults w)" using Database_get_faults[of w key] g by simp
  have k: "kv w1 = kv w" using Database_get_kv[of w key] g by simp
  have nf: "\<not> nth_fault w1 0" using nth_fault_tl[OF f, of 0] assms(3) by simp
  show u: "Database_update w key i u
         = Database_set (snd (Database_get w key)) key
             ((stored w key)[n := spread (stored w key ! n) u])"
    using assms(1) by (simp add: Database_update_def g d)
  show "fst (Database_update w key i u)"
    by (simp add: u g Database_set_fst nf)
  show "kv (snd (Database_update w key i u))
         = (kv w)(key \<mapsto> (stored w key)[n := spread (stored w key ! n) u])"
    by (simp add: u g Database_set_kv nf k)
qed

lemma recompute_total_found:
  assumes "find_item (has_id i) (stored w EMERGENCY_ITEMS) = Some item"
    and "\<not> nth_fault w 0"
    and "getp u ''quantity'' \<noteq> JUndefined \<or> getp u ''price'' \<noteq> JUndefined"
  shows "recompute_total rt w i u =
          (map_option (\<lambda>v. AList.update ''totalValue'' v u)
             (js_times rt
                (if getp u ''quantity'' \<noteq> JUndefined then getp u ''quantity'' else getp item ''quantity'')
                (if getp u ''price'' \<noteq> JUndefined then getp u ''price'' else getp item ''price'')),
           snd (Database_get w EMERGENCY_ITEMS))"
proof -
  obtain d w1 where g: "Database_get w EMERGENCY_ITEMS = (d, w1)"
    by (cases "Database_get w EMERGENCY_ITEMS")
  have d: "d = stored w EMERGENCY_ITEMS"
    using Database_get_fst[of w EMERGENCY_ITEMS] g assms(2) by (simp add: stored_def)
  show ?thesis using assms(1,3)
    by (simp add: recompute_total_def g d Let_def)
qed

lemma map_of_rev_distinct: "distinct (map fst xs) \<Longrightarrow> map_of (rev xs) = map_of xs"
proof -
  assume d: "distinct (map fst xs)"
  then have "distinct (map fst (rev xs))" by (metis distinct_rev rev_map)
  from map_of_inject_set[OF this d] show ?thesis by simp
qed

lemma getp_spread_distinct:
  "distinct (map fst b) \<Longrightarrow>
   getp (spread a b) k = (case map_of b k of None \<Rightarrow> getp a k | Some v \<Rightarrow> v)"
  by (simp add: getp_spread map_of_rev_distinct)

lemma handlePut_found:
  assumes "i \<noteq> []"
    and "find_item (has_id (JStr i)) (stored w EMERGENCY_ITEMS) = Some item"
    and "\<not> nth_fault w 0" "\<not> nth_fault w 1" "\<not> nth_fault w 2"
    and "getp data ''quantity'' \<noteq> JUndefined \<or> getp data ''price'' \<noteq> JUndefined"
    and "js_times rt
           (if getp data ''quantity'' \<noteq> JUndefined then getp data ''quantity'' else getp item ''quantity'')
           (if getp data ''price'' \<noteq> JUndefined then getp data ''price'' else getp item ''price'')
         = Some v"
  shows "\<exists>n. findIndex (has_id (JStr i)) (stored w EMERGENCY_ITEMS) = Some n
            \<and> n < length (stored w EMERGENCY_ITEMS)
            \<and> stored w EMERGENCY_ITEMS ! n = item
            \<and> kv (snd (handlePut rt w (Some i) data)) EMERGENCY_ITEMS
                = Some ((stored w EMERGENCY_ITEMS)[n := spread item (put_updates rt w data v)])
            \<and> map_option status (fst (handlePut rt w (Some i) data)) = Some 200"
proof -
  let ?K = EMERGENCY_ITEMS
  obtain n where n: "findIndex (has_id (JStr i)) (stored w ?K) = Some n"
      "n < length (stored w ?K)" "stored w ?K ! n = item"
    using find_item_findIndex[OF assms(2)] by blast
  define w1 where "w1 = snd (Date_toISOString rt w)"
  define u0 where "u0 = AList.update ''updatedAt'' (JStr (now_iso rt (tick w))) data"
  have dt: "Date_toISOString rt w = (now_iso rt (tick w), w1)"
    by (simp add: w1_def Date_toISOString_def)
  have w1: "kv w1 = kv w" "faults w1 = faults w"
    by (simp_all add: w1_def Date_toISOString_world)
  have st1: "stored w1 ?K = stored w ?K" by (simp add: stored_def w1)
  have nf1: "\<not> nth_fault w1 0" "\<not> nth_fault w1 1" "\<not> nth_fault w1 2"
    using assms(3-5) nth_fault_cong[OF w1(2)] by simp_all
  have gu: "getp u0 ''quantity'' = getp data ''quantity''" "getp u0 ''price'' = getp data ''price''"
    by (simp_all add: u0_def getp_update)
  define w2 where "w2 = snd (Database_get w1 ?K)"
  have rc: "recompute_total rt w1 (JStr i) u0 = (Some (AList.update ''totalValue'' v u0), w2)"
  proof -
    have "getp u0 ''quantity'' \<noteq> JUndefined \<or> getp u0 ''price'' \<noteq> JUndefined"
      using assms(6) by (simp add: gu)
    from recompute_total_found[of "JStr i" w1 item, OF _ nf1(1) this, of rt] assms(2)
    have "recompute_total rt w1 (JStr i) u0 =
          (map_option (\<lambda>v. AList.update ''totalValue'' v u0)
             (js_times rt
                (if getp data ''quantity'' \<noteq> JUndefined then getp data ''quantity'' else getp item ''quantity'')
                (if getp data ''price'' \<noteq> JUndefined then getp data ''price'' else getp item ''price'')),
           w2)"
      by (simp add: st1 gu w2_def)
    then show ?thesis unfolding assms(7) by simp
  qed
  have w2: "kv w2 = kv w" "faults w2 = tl (faults w1)"
    by (simp_all add: w2_def Database_get_kv Database_get_faults w1)
  have st2: "stored w2 ?K = stored w ?K" by (simp add: stored_def w2)
  have nf2: "\<not> nth_fault w2 0" "\<not> nth_fault w2 1"
    using nth_fault_tl[OF w2(2), of 0] nth_fault_tl[OF w2(2), of 1] nf1 by (simp_all add: numeral_2_eq_2)
  have n2: "findIndex (has_id (JStr i)) (stored w2 ?K) = Some n" by (simp add: st2 n)
  obtain ok w3 where up: "Database_update w2 ?K (JStr i) (AList.update ''totalValue'' v u0) = (ok, w3)"
    by (cases "Database_update w2 ?K (JStr i) (AList.update ''totalValue'' v u0)")
  have ok: "ok"
    using Database_update_found(2)[OF n2 nf2, of "AList.update ''totalValue'' v u0"] up by simp
  have k3: "kv w3 ?K = Some ((stored w ?K)[n := spread item (AList.update ''totalValue'' v u0)])"
    using Database_update_found(3)[OF n2 nf2, of "AList.update ''totalValue'' v u0"] up
    by (simp add: st2 n w2)
  have hp: "handlePut rt w (Some i) data =
        (Some \<lparr>status = 200,
               body = [(''success'', JBool True), (''message'', JStr MSG_ITEM_UPDATED)]\<rparr>,
         logOperation rt w3 LOG_UPDATE_ITEM (LOG_UPDATE_ITEM_PREFIX @ i)
           (js_or (getp (AList.update ''totalValue'' v u0) ''operator'') (JStr ''system'')))"
    using assms(1) ok by (simp add: handlePut_def dt u0_def[symmetric] rc up)
  show ?thesis
    using n k3 by (auto simp: hp logOperation_kv_other keys_distinct put_updates_def u0_def)
qed

lemma map_of_put_updates:
  "map_of (put_updates rt w data v) k =
     (if k = ''totalValue'' then Some v
      else if k = ''updatedAt'' then Some (JStr (now_iso rt (tick w)))
      else map_of data k)"
  by (simp add: put_updates_def update_conv')

lemma getp_merged:
  assumes "distinct (map fst data)"
  shows "getp (spread item (put_updates rt w data v)) k =
     (if k = ''totalValue'' then v
      else if k = ''updatedAt'' then JStr (now_iso rt (tick w))
      else case map_of data k of None \<Rightarrow> getp item k | Some x \<Rightarrow> x)"
proof -
  have "distinct (map fst (put_updates rt w data v))"
    using assms by (simp add: put_updates_def distinct_update)
  then show ?thesis
    by (simp add: getp_spread_distinct map_of_put_updates)
qed

lemma getp_absent: "k \<notin> fst ` set r \<Longrightarrow> getp r k = JUndefined"
  by (simp add: getp_def map_of_eq_None_iff[THEN iffD2])

lemma getp_present: "getp r k \<noteq> JUndefined \<Longrightarrow> map_of r k = Some (getp r k)"
  by (simp add: getp_def split: option.splits)

lemmas put_eval =
  handlePut_def Date_toISOString_def world0_def recompute_total_def
  getp_def Database_get_def backend_call_def Database_update_def has_id_def item_a_def item_b_def
  Database_set_def spread_def logOperation_def Date_now_toString_def Database_add_def js_or_def
  EMERGENCY_ITEMS_def OPERATION_LOGS_def Let_def stored_def find_item_def
  js_times_def ToNumber_def

text \<open>
  C2 as stated fails: when the read of the items inside \<open>handlePut\<close> throws,
  \<open>get\<close> hands back the empty array, no item is found and the total is not
  recomputed; the update that follows reads the collection again, finds the
  item and succeeds. The request is answered 200 and the item keeps its old
  total 40 beside the new price 20 and the quantity 4.
\<close>

theorem put_recomputes_total_counterexample:
  "find_item (has_id (JStr ''1'')) (stored (world0 [True]) EMERGENCY_ITEMS) = Some item_a
   \<and> map_option status (fst (handlePut ref_runtime (world0 [True]) (Some ''1'') body_price)) = Some 200
   \<and> getp (stored (snd (handlePut ref_runtime (world0 [True]) (Some ''1'') body_price)) EMERGENCY_ITEMS ! 0) ''price''
       = JNum (Fin 20)
   \<and> getp (stored (snd (handlePut ref_runtime (world0 [True]) (Some ''1'') body_price)) EMERGENCY_ITEMS ! 0) ''quantity''
       = JNum (Fin 4)
   \<and> getp (stored (snd (handlePut ref_runtime (world0 [True]) (Some ''1'') body_price)) EMERGENCY_ITEMS ! 0) ''totalValue''
       = JNum (Fin 40)
   \<and> js_times ref_runtime (JNum (Fin 4)) (JNum (Fin 20)) = Some (JNum (Fin 80))"
  by (simp add: put_eval body_price_def)

text \<open>
  C2, amended. Take a request with an id, a body with each key once, an item
  of the stored collection that is the first with that id, and a backend
  whose three calls (the read of \<open>handlePut\<close>, the read and the write of
  \<open>update\<close>) do not fail. When the body has a price and no quantity and the
  product of the item's stored quantity and that price is \<open>v\<close>, the record
  written in the item's place has total \<open>v\<close>, the new price, the old quantity
  and the current time as \<open>updatedAt\<close>; the same with price and quantity
  exchanged.
\<close>

theorem put_recomputes_total:
  assumes "i \<noteq> []" and "distinct (map fst data)"
    and "find_item (has_id (JStr i)) (stored w EMERGENCY_ITEMS) = Some item"
    and "\<not> nth_fault w 0" and "\<not> nth_fault w 1" and "\<not> nth_fault w 2"
  shows
    "(''quantity'' \<notin> fst ` set data \<and> getp data ''price'' \<noteq> JUndefined
        \<and> js_times rt (getp item ''quantity'') (getp data ''price'') = Some v
      \<longrightarrow> (\<exists>n r. n < length (stored w EMERGENCY_ITEMS) \<and> stored w EMERGENCY_ITEMS ! n = item
             \<and> kv (snd (handlePut rt w (Some i) data)) EMERGENCY_ITEMS
                 = Some ((stored w EMERGENCY_ITEMS)[n := r])
             \<and> getp r ''totalValue'' = v
             \<and> getp r ''price'' = getp data ''price''
             \<and> getp r ''quantity'' = getp item ''quantity''
             \<and> getp r ''updatedAt'' = JStr (now_iso rt (tick w))))
   \<and> (''price'' \<notin> fst ` set data \<and> getp data ''quantity'' \<noteq> JUndefined
        \<and> js_times rt (getp data ''quantity'') (getp item ''price'') = Some v
      \<longrightarrow> (\<exists>n r. n < length (stored w EMERGENCY_ITEMS) \<and> stored w EMERGENCY_ITEMS ! n = item
             \<and> kv (snd (handlePut rt w (Some i) data)) EMERGENCY_ITEMS
                 = Some ((stored w EMERGENCY_ITEMS)[n := r])
             \<and> getp r ''totalValue'' = v
             \<and> getp r ''quantity'' = getp data ''quantity''
             \<and> getp r ''price'' = getp item ''price''
             \<and> getp r ''updatedAt'' = JStr (now_iso rt (tick w))))"
proof (intro conjI impI)
  assume a: "''quantity'' \<notin> fst ` set data \<and> getp data ''price'' \<noteq> JUndefined
        \<and> js_times rt (getp item ''quantity'') (getp data ''price'') = Some v"
  then have q: "getp data ''quantity'' = JUndefined" "map_of data ''quantity'' = None"
    and p: "map_of data ''price'' = Some (getp data ''price'')"
    by (simp_all add: getp_absent getp_present map_of_eq_None_iff[THEN iffD2])
  from a q have
    "js_times rt
       (if getp data ''quantity'' \<noteq> JUndefined then getp data ''quantity'' else getp item ''quantity'')
       (if getp data ''price'' \<noteq> JUndefined then getp data ''price'' else getp item ''price'')
     = Some v" by simp
  from handlePut_found[OF assms(1,3-6) _ this] a
  obtain n where n: "n < length (stored w EMERGENCY_ITEMS)" "stored w EMERGENCY_ITEMS ! n = item"
      "kv (snd (handlePut rt w (Some i) data)) EMERGENCY_ITEMS
         = Some ((stored w EMERGENCY_ITEMS)[n := spread item (put_updates rt w data v)])"
    by blast
  show "\<exists>n r. n < length (stored w EMERGENCY_ITEMS) \<and> stored w EMERGENCY_ITEMS ! n = item
             \<and> kv (snd (handlePut rt w (Some i) data)) EMERGENCY_ITEMS
                 = Some ((stored w EMERGENCY_ITEMS)[n := r])
             \<and> getp r ''totalValue'' = v
             \<and> getp r ''price'' = getp data ''price''
             \<and> getp r ''quantity'' = getp item ''quantity''
             \<and> getp r ''updatedAt'' = JStr (now_iso rt (tick w))"
    using n by (intro exI[of _ n] exI[of _ "spread item (put_updates rt w data v)"])
      (simp add: getp_merged[OF assms(2)] q p)
next
  assume a: "''price'' \<notin> fst ` set data \<and> getp data ''quantity'' \<noteq> JUndefined
        \<and> js_times rt (getp data ''quantity'') (getp item ''price'') = Some v"
  then have q: "getp data ''price'' = JUndefined" "map_of data ''price'' = None"
    and p: "map_of data ''quantity'' = Some (getp data ''quantity'')"
    by (simp_all add: getp_absent getp_present map_of_eq_None_iff[THEN iffD2])
  from a q have
    "js_times rt
       (if getp data ''quantity'' \<noteq> JUndefined then getp data ''quantity'' else getp item ''quantity'')
       (if getp data ''price'' \<noteq> JUndefined then getp data ''price'' else getp item ''price'')
     = Some v" by simp
  from handlePut_found[OF assms(1,3-6) _ this] a
  obtain n where n: "n < length (stored w EMERGENCY_ITEMS)" "stored w EMERGENCY_ITEMS ! n = item"
      "kv (snd (handlePut rt w (Some i) data)) EMERGENCY_ITEMS
         = Some ((stored w EMERGENCY_ITEMS)[n := spread item (put_updates rt w data v)])"
    by blast
  show "\<exists>n r. n < length (stored w EMERGENCY_ITEMS) \<and> stored w EMERGENCY_ITEMS ! n = item
             \<and> kv (snd (handlePut rt w (Some i) data)) EMERGENCY_ITEMS
                 = Some ((stored w EMERGENCY_ITEMS)[n := r])
             \<and> getp r ''totalValue'' = v
             \<and> getp r ''quantity'' = getp data ''quantity''
             \<and> getp r ''price'' = getp item ''price''
             \<and> getp r ''updatedAt'' = JStr (now_iso rt (tick w))"
    using n by (intro exI[of _ n] exI[of _ "spread item (put_updates rt w data v)"])
      (simp add: getp_merged[OF assms(2)] q p)
qed

text \<open>C2, amended, on the example store: a new price 20, or a new quantity 5, for item 1.\<close>

theorem put_recomputes_total_witness:
  "find_item (has_id (JStr ''1'')) (stored (world0 []) EMERGENCY_ITEMS) = Some item_a
   \<and> js_times ref_runtime (getp item_a ''quantity'') (getp body_price ''price'') = Some (JNum (Fin 80))
   \<and> (\<exists>n r. n < length (stored (world0 []) EMERGENCY_ITEMS)
         \<and> stored (world0 []) EMERGENCY_ITEMS ! n = item_a
         \<and> kv (snd (handlePut ref_runtime (world0 []) (Some ''1'') body_price)) EMERGENCY_ITEMS
             = Some ((stored (world0 []) EMERGENCY_ITEMS)[n := r])
         \<and> getp r ''totalValue'' = JNum (Fin 80)
         \<and> getp r ''price'' = JNum (Fin 20)
         \<and> getp r ''quantity'' = JNum (Fin 4)
         \<and> getp r ''updatedAt'' = JStr (now_iso ref_runtime (tick (world0 []))))
   \<and> js_times ref_runtime (getp body_quantity ''quantity'') (getp item_a ''price'') = Some (JNum (Fin 50))
   \<and> (\<exists>n r. n < length (stored (world0 []) EMERGENCY_ITEMS)
         \<and> stored (world0 []) EMERGENCY_ITEMS ! n = item_a
         \<and> kv (snd (handlePut ref_runtime (world0 []) (Some ''1'') body_quantity)) EMERGENCY_ITEMS
             = Some ((stored (world0 []) EMERGENCY_ITEMS)[n := r])
         \<and> getp r ''totalValue'' = JNum (Fin 50)
         \<and> getp r ''quantity'' = JNum (Fin 5)
         \<and> getp r ''price'' = JNum (Fin 10)
         \<and> getp r ''updatedAt'' = JStr (now_iso ref_runtime (tick (world0 []))))"
proof -
  have i: "''1'' \<noteq> []" by simp
  have d: "distinct (map fst body_price)" "distinct (map fst body_quantity)"
    by (simp_all add: body_price_def body_quantity_def)
  have f: "find_item (has_id (JStr ''1'')) (stored (world0 []) EMERGENCY_ITEMS) = Some item_a"
    by (simp add: find_item_def stored_def world0_def has_id_def getp_def item_a_def item_b_def)
  have n: "\<not> nth_fault (world0 []) 0" "\<not> nth_fault (world0 []) 1" "\<not> nth_fault (world0 []) 2"
    by (simp_all add: nth_fault_def world0_def)
  have g: "getp item_a ''quantity'' = JNum (Fin 4)" "getp item_a ''price'' = JNum (Fin 10)"
    "getp body_price ''price'' = JNum (Fin 20)" "getp body_quantity ''quantity'' = JNum (Fin 5)"
    by (simp_all add: getp_def item_a_def body_price_def body_quantity_def)
  have j: "js_times ref_runtime (getp item_a ''quantity'') (getp body_price ''price'') = Some (JNum (Fin 80))"
    "js_times ref_runtime (getp body_quantity ''quantity'') (getp item_a ''price'') = Some (JNum (Fin 50))"
    by (simp_all add: g js_times_def ToNumber_def)
  have h1: "''quantity'' \<notin> fst ` set body_price \<and> getp body_price ''price'' \<noteq> JUndefined
        \<and> js_times ref_runtime (getp item_a ''quantity'') (getp body_price ''price'') = Some (JNum (Fin 80))"
    using j(1) by (simp add: g) (simp add: body_price_def)
  have h2: "''price'' \<notin> fst ` set body_quantity \<and> getp body_quantity ''quantity'' \<noteq> JUndefined
        \<and> js_times ref_runtime (getp body_quantity ''quantity'') (getp item_a ''price'') = Some (JNum (Fin 50))"
    using j(2) by (simp add: g) (simp add: body_quantity_def)
  from put_recomputes_total[OF i d(1) f n, of ref_runtime "JNum (Fin 80)"] h1
  have p1: "\<exists>n r. n < length (stored (world0 []) EMERGENCY_ITEMS)
         \<and> stored (world0 []) EMERGENCY_ITEMS ! n = item_a
         \<and> kv (snd (handlePut ref_runtime (world0 []) (Some ''1'') body_price)) EMERGENCY_ITEMS
             = Some ((stored (world0 []) EMERGENCY_ITEMS)[n := r])
         \<and> getp r ''totalValue'' = JNum (Fin 80)
         \<and> getp r ''price'' = JNum (Fin 20)
         \<and> getp r ''quantity'' = JNum (Fin 4)
         \<and> getp r ''updatedAt'' = JStr (now_iso ref_runtime (tick (world0 [])))"
    by (simp add: g)
  from put_recomputes_total[OF i d(2) f n, of ref_runtime "JNum (Fin 50)"] h2
  have p2: "\<exists>n r. n < length (stored (world0 []) EMERGENCY_ITEMS)
         \<and> stored (world0 []) EMERGENCY_ITEMS ! n = item_a
         \<and> kv (snd (handlePut ref_runtime (world0 []) (Some ''1'') body_quantity)) EMERGENCY_ITEMS
             = Some ((stored (world0 []) EMERGENCY_ITEMS)[n := r])
         \<and> getp r ''totalValue'' = JNum (Fin 50)
         \<and> getp r ''quantity'' = JNum (Fin 5)
         \<and> getp r ''price'' = JNum (Fin 10)
         \<and> getp r ''updatedAt'' = JStr (now_iso ref_runtime (tick (world0 [])))"
    by (simp add: g)
  from f j p1 p2 show ?thesis by blast
qed

lemma cat_fold_Some:
  "cat_fold (Some \<lparr>count = Fin (of_nat n), cvalue = JNum a\<rparr>) xs
     = Some \<lparr>count = Fin (of_nat (n + length xs)), cvalue = JNum (foldl num_add a xs)\<rparr>"
proof (induction xs arbitrary: n a)
  case Nil
  show ?case by simp
next
  case (Cons x xs)
  from Cons.IH[of "Suc n" "num_add a x"] show ?case by (simp add: ac_simps)
qed

lemma cat_fold_None:
  "cat_fold None xs =
     (if xs = [] then None
      else Some \<lparr>count = Fin (of_nat (length xs)), cvalue = JNum (foldl num_add (Fin 0) xs)\<rparr>)"
proof (cases xs)
  case Nil
  then show ?thesis by simp
next
  case (Cons x ys)
  have "cat_fold None (x # ys)
          = cat_fold (Some \<lparr>count = Fin (of_nat 1), cvalue = JNum (num_add (Fin 0) x)\<rparr>) ys"
    by simp
  also have "\<dots> = Some \<lparr>count = Fin (of_nat (1 + length ys)),
                        cvalue = JNum (foldl num_add (num_add (Fin 0) x) ys)\<rparr>"
    by (rule cat_fold_Some)
  finally show ?thesis using Cons by simp
qed

lemma js_plus_nums: "js_plus rt (JNum a) (JNum b) = Some (JNum (num_add a b))"
  by (simp add: js_plus_def)

lemma js_less_num_primitive:
  "is_primitive v \<Longrightarrow> js_less_num rt v n = Some (num_less (prim_to_number rt v) n)"
  by (cases v) (simp_all add: js_less_num_def ToNumber_def)

lemma stats_item_D:
  assumes "stats_item item"
  obtains x where "item_total item = JNum x"
    and "getp item ''category'' = JStr (category_of item)"
    and "category_of item \<notin> set Object_prototype_keys"
    and "is_primitive (getp item ''quantity'')"
proof -
  from assms obtain x where x: "item_total item = JNum x"
    by (cases "item_total item") (simp_all add: stats_item_def)
  from assms obtain c where c: "getp item ''category'' = JStr c" "c \<notin> set Object_prototype_keys"
    by (cases "getp item ''category''") (simp_all add: stats_item_def)
  from c have "category_of item = c" by (simp add: category_of_def)
  with that x c assms show thesis by (simp add: stats_item_def)
qed

text \<open>One round of the loop on an item of the data model.\<close>

lemma stats_step_item:
  assumes "stats_item item" and "totalValue st = JNum a"
    and "\<forall>c e. map_of (categories st) c = Some e \<longrightarrow> is_num (cvalue e)"
  shows "stats_step rt st item =
     Some (st\<lparr>totalValue := JNum (num_add a (the_num (item_total item))),
              categories := AList.update (category_of item)
                 (the (cat_fold (map_of (categories st) (category_of item))
                         [the_num (item_total item)]))
                 (categories st),
              lowStock := (if low_stock rt item then lowStock st @ [low_entry item]
                           else lowStock st)\<rparr>)"
proof -
  from assms(1) obtain x where x: "item_total item = JNum x"
    and c: "getp item ''category'' = JStr (category_of item)"
    and p: "category_of item \<notin> set Object_prototype_keys"
    and q: "is_primitive (getp item ''quantity'')"
    by (rule stats_item_D)
  have tv: "js_or (getp item ''totalValue'') (JNum (Fin 0)) = JNum x"
    using x by (simp add: item_total_def)
  show ?thesis
  proof (cases "map_of (categories st) (category_of item)")
    case None
    then show ?thesis
      using p by (simp add: stats_step_def tv x c ToString_def assms(2) js_plus_nums
          js_less_num_primitive[OF q] low_stock_def)
  next
    case (Some e)
    with assms(3) have "is_num (cvalue e)" by blast
    then obtain b where b: "cvalue e = JNum b"
      by (cases "cvalue e") simp_all
    show ?thesis
      by (simp add: stats_step_def tv x c ToString_def assms(2) js_plus_nums Some b
          js_less_num_primitive[OF q] low_stock_def)
  qed
qed

lemma cat_fold_single: "cat_fold m [x] = Some (the (cat_fold m [x]))"
  by simp

lemma cat_fold_single_num: "is_num (cvalue (the (cat_fold m [x])))"
  by (cases m) simp_all

lemma stats_loop_items:
  assumes "list_all stats_item items" and "totalValue st = JNum a"
    and "\<forall>c e. map_of (categories st) c = Some e \<longrightarrow> is_num (cvalue e)"
  shows "\<exists>st'. stats_loop rt st items = Some st'
           \<and> totalItems st' = totalItems st
           \<and> totalValue st' = JNum (foldl num_add a (map (\<lambda>i. the_num (item_total i)) items))
           \<and> lowStock st' = lowStock st @ map low_entry (filter (low_stock rt) items)
           \<and> (\<forall>c. map_of (categories st') c =
                  cat_fold (map_of (categories st) c)
                    (map (\<lambda>i. the_num (item_total i)) (filter (in_category c) items)))"
  using assms
proof (induction items arbitrary: st a)
  case Nil
  then show ?case by simp
next
  case (Cons item items)
  let ?x = "the_num (item_total item)"
  let ?k = "category_of item"
  let ?e = "the (cat_fold (map_of (categories st) ?k) [?x])"
  define st1 where "st1 = st\<lparr>totalValue := JNum (num_add a ?x),
              categories := AList.update ?k ?e (categories st),
              lowStock := (if low_stock rt item then lowStock st @ [low_entry item]
                           else lowStock st)\<rparr>"
  from Cons.prems have it: "stats_item item" and rest: "list_all stats_item items" by simp_all
  have step: "stats_step rt st item = Some st1"
    unfolding st1_def by (rule stats_step_item[OF it Cons.prems(2,3)])
  have cats1: "map_of (categories st1) c =
                 (if c = ?k then cat_fold (map_of (categories st) ?k) [?x]
                  else map_of (categories st) c)" for c
  proof -
    have "Some ?e = cat_fold (map_of (categories st) ?k) [?x]"
      by (rule cat_fold_single[symmetric])
    then show ?thesis by (simp add: st1_def update_conv' del: cat_fold.simps)
  qed
  have inv1: "\<forall>c e. map_of (categories st1) c = Some e \<longrightarrow> is_num (cvalue e)"
  proof (intro allI impI)
    fix c e assume m: "map_of (categories st1) c = Some e"
    show "is_num (cvalue e)"
    proof (cases "c = ?k")
      case True
      with m have "e = ?e" by (simp add: st1_def update_conv')
      then show ?thesis by (simp only: cat_fold_single_num)
    next
      case False
      with m have "map_of (categories st) c = Some e" by (simp add: cats1)
      with Cons.prems(3) show ?thesis by blast
    qed
  qed
  have tv1: "totalValue st1 = JNum (num_add a ?x)" by (simp add: st1_def)
  from Cons.IH[OF rest tv1 inv1] obtain st' where st':
    "stats_loop rt st1 items = Some st'"
    "totalItems st' = totalItems st1"
    "totalValue st' = JNum (foldl num_add (num_add a ?x) (map (\<lambda>i. the_num (item_total i)) items))"
    "lowStock st' = lowStock st1 @ map low_entry (filter (low_stock rt) items)"
    "\<forall>c. map_of (categories st') c =
          cat_fold (map_of (categories st1) c)
            (map (\<lambda>i. the_num (item_total i)) (filter (in_category c) items))"
    by blast
  have cats: "map_of (categories st') c =
                cat_fold (map_of (categories st) c)
                  (map (\<lambda>i. the_num (item_total i)) (filter (in_category c) (item # items)))" for c
  proof (cases "c = ?k")
    case True
    then have "in_category c item" by (simp add: in_category_def)
    then show ?thesis
      using st'(5) True by (simp add: cats1)
  next
    case False
    then have "\<not> in_category c item" by (auto simp: in_category_def)
    then show ?thesis using st'(5) False by (simp add: cats1)
  qed
  show ?case
    using st'(1-4) cats by (simp add: step) (simp add: st1_def)
qed

section \<open>Claims about the statistics\<close>

lemma calculateStats_items:
  assumes "list_all stats_item items"
  shows "\<exists>st. calculateStats rt items = Some st
           \<and> totalItems st = length items
           \<and> totalValue st = JNum (sum_totals items)
           \<and> (\<forall>c. map_of (categories st) c =
                 (if filter (in_category c) items = [] then None
                  else Some \<lparr>count = Fin (of_nat (length (filter (in_category c) items))),
                             cvalue = JNum (sum_totals (filter (in_category c) items))\<rparr>))
           \<and> lowStock st = map low_entry (filter (low_stock rt) items)"
proof -
  let ?st0 = "\<lparr>totalItems = length items, totalValue = JNum (Fin 0),
               categories = [], lowStock = []\<rparr>"
  have "\<forall>c e. map_of (categories ?st0) c = Some e \<longrightarrow> is_num (cvalue e)" by simp
  from stats_loop_items[OF assms _ this, of "Fin 0" rt]
  obtain st where st: "stats_loop rt ?st0 items = Some st"
    "totalItems st = length items"
    "totalValue st = JNum (foldl num_add (Fin 0) (map (\<lambda>i. the_num (item_total i)) items))"
    "lowStock st = map low_entry (filter (low_stock rt) items)"
    "\<forall>c. map_of (categories st) c =
          cat_fold None (map (\<lambda>i. the_num (item_total i)) (filter (in_category c) items))"
    by auto
  show ?thesis
    using st by (simp add: calculateStats_def sum_totals_def cat_fold_None)
qed

text \<open>
  A category named like a member of \<open>Object.prototype\<close> gets no entry: the
  lookup finds the inherited member and the entry is never created.
\<close>

lemma stats_constructor_category:
  "map_option categories (calculateStats rt [constructor_item]) = Some []"
  by (simp add: calculateStats_def stats_step_def constructor_item_def getp_def js_or_def
        js_plus_def ToString_def Object_prototype_keys_def js_less_num_def ToNumber_def Let_def)

text \<open>
  C7 as stated fails: nothing checks that a stored total is a number. An item
  whose \<open>totalValue\<close> is the text \<open>5\<close> makes \<open>+=\<close> concatenate, and the
  statistics report the text \<open>05\<close> as total value, for the category as well.
\<close>

theorem stats_totals_counterexample:
  "map_option totalValue (calculateStats ref_runtime [text_total_item]) = Some (JStr ''05'')
   \<and> map_option (\<lambda>st. map_of (categories st) ''A'') (calculateStats ref_runtime [text_total_item])
       = Some (Some \<lparr>count = Fin 1, cvalue = JStr ''05''\<rparr>)"
  by (simp add: calculateStats_def stats_step_def text_total_item_def getp_def js_or_def
        js_plus_def ToString_def Object_prototype_keys_def js_less_num_def ToNumber_def Let_def
        ref_runtime_def dec_str_def)

text \<open>
  C7, amended. For every list of items as the data model has them (the total a
  number or missing, the category a string that no member of
  \<open>Object.prototype\<close> is named after, the quantity a primitive value) the
  statistics are computed and give: the length of the list as \<open>totalItems\<close>;
  the sum of the totals, a missing total counted as 0, as \<open>totalValue\<close>; for
  every category the number of its items and the sum of their totals, and no
  entry for a category without items; and as \<open>lowStock\<close> the \<open>id\<close>, \<open>name\<close>,
  \<open>quantity\<close> and \<open>unit\<close> of exactly the items whose quantity is below 5, in
  order. On the three items of the specification's example the total value is
  15, category A has count 2 and value 15, category B has count 1 and value 0,
  and the low stock holds the first two items.
\<close>

theorem stats_of_items:
  "(list_all stats_item items \<longrightarrow>
      (\<exists>st. calculateStats rt items = Some st
         \<and> totalItems st = length items
         \<and> totalValue st = JNum (sum_totals items)
         \<and> (\<forall>c. map_of (categories st) c =
               (if filter (in_category c) items = [] then None
                else Some \<lparr>count = Fin (of_nat (length (filter (in_category c) items))),
                           cvalue = JNum (sum_totals (filter (in_category c) items))\<rparr>))
         \<and> lowStock st = map low_entry (filter (low_stock rt) items)))
   \<and> calculateStats rt stats_example =
       Some \<lparr>totalItems = 3, totalValue = JNum (Fin 15),
              categories = [(''A'', \<lparr>count = Fin 2, cvalue = JNum (Fin 15)\<rparr>),
                            (''B'', \<lparr>count = Fin 1, cvalue = JNum (Fin 0)\<rparr>)],
              lowStock = [low_entry (stats_item1), low_entry (stats_item2)]\<rparr>"
proof
  show "list_all stats_item items \<longrightarrow>
      (\<exists>st. calculateStats rt items = Some st
         \<and> totalItems st = length items
         \<and> totalValue st = JNum (sum_totals items)
         \<and> (\<forall>c. map_of (categories st) c =
               (if filter (in_category c) items = [] then None
                else Some \<lparr>count = Fin (of_nat (length (filter (in_category c) items))),
                           cvalue = JNum (sum_totals (filter (in_category c) items))\<rparr>))
         \<and> lowStock st = map low_entry (filter (low_stock rt) items))"
    using calculateStats_items by blast
  show "calculateStats rt stats_example =
       Some \<lparr>totalItems = 3, totalValue = JNum (Fin 15),
              categories = [(''A'', \<lparr>count = Fin 2, cvalue = JNum (Fin 15)\<rparr>),
                            (''B'', \<lparr>count = Fin 1, cvalue = JNum (Fin 0)\<rparr>)],
              lowStock = [low_entry (stats_item1), low_entry (stats_item2)]\<rparr>"
    by (simp add: calculateStats_def stats_step_def stats_example_def stats_item1_def stats_item2_def stats_item3_def getp_def js_or_def
        js_plus_def ToString_def Object_prototype_keys_def js_less_num_def ToNumber_def Let_def)
qed

text \<open>C7, amended, on the example: its items are items of the data model.\<close>

theorem stats_of_items_witness:
  "list_all stats_item stats_example
   \<and> (\<exists>st. calculateStats ref_runtime stats_example = Some st
         \<and> totalItems st = 3
         \<and> totalValue st = JNum (Fin 15)
         \<and> map_of (categories st) ''A'' = Some \<lparr>count = Fin 2, cvalue = JNum (Fin 15)\<rparr>
         \<and> map_of (categories st) ''B'' = Some \<lparr>count = Fin 1, cvalue = JNum (Fin 0)\<rparr>
         \<and> map_of (categories st) ''C'' = None
         \<and> lowStock st = [low_entry (stats_item1), low_entry (stats_item2)])"
proof -
  have h: "list_all stats_item stats_example"
    by (simp add: stats_example_def stats_item1_def stats_item2_def stats_item3_def stats_item_def item_total_def js_or_def getp_def
          Object_prototype_keys_def)
  have s: "sum_totals stats_example = Fin 15" "length stats_example = 3"
    by (simp_all add: sum_totals_def stats_example_def stats_item1_def stats_item2_def stats_item3_def item_total_def js_or_def getp_def)
  have c: "filter (in_category ''A'') stats_example = [stats_item1, stats_item2]"
      "filter (in_category ''B'') stats_example = [stats_item3]"
      "filter (in_category ''C'') stats_example = []"
    by (simp_all add: stats_example_def stats_item1_def stats_item2_def stats_item3_def in_category_def category_of_def getp_def)
  have t: "sum_totals [stats_item1, stats_item2] = Fin 15"
      "sum_totals [stats_item3] = Fin 0"
    by (simp_all add: sum_totals_def stats_example_def stats_item1_def stats_item2_def stats_item3_def item_total_def js_or_def getp_def)
  have l: "filter (low_stock ref_runtime) stats_example = [stats_item1, stats_item2]"
    by (simp add: stats_example_def stats_item1_def stats_item2_def stats_item3_def low_stock_def getp_def)
  from stats_of_items[of stats_example ref_runtime] h
  obtain st where st: "calculateStats ref_runtime stats_example = Some st"
    "totalItems st = length stats_example"
    "totalValue st = JNum (sum_totals stats_example)"
    "\<forall>c. map_of (categories st) c =
          (if filter (in_category c) stats_example = [] then None
           else Some \<lparr>count = Fin (of_nat (length (filter (in_category c) stats_example))),
                      cvalue = JNum (sum_totals (filter (in_category c) stats_example))\<rparr>)"
    "lowStock st = map low_entry (filter (low_stock ref_runtime) stats_example)"
    by blast
  have "map_of (categories st) ''A'' = Some \<lparr>count = Fin 2, cvalue = JNum (Fin 15)\<rparr>"
       "map_of (categories st) ''B'' = Some \<lparr>count = Fin 1, cvalue = JNum (Fin 0)\<rparr>"
       "map_of (categories st) ''C'' = None"
    using st(4) by (simp_all add: c t)
  then show ?thesis
    using h st(1,2,3,5) by (simp add: s l)
qed

section \<open>Claims about the migration\<close>














































end
